theory Spec2Isabelle
  imports Complex_Main
begin

section \<open>Data model (types.ts)\<close>

text \<open>
  A JavaScript \<open>number\<close> is modelled as a real. The non-finite values \<open>Infinity\<close> and
  \<open>NaN\<close> are not reals. Where the source keeps a divisor away from zero by construction
  (a positive constant, \<open>1 + exp _\<close>, \<open>max 1 _\<close>, or a sum replaced by 1 when it is 0) the
  division is the division of the reals; the divisions of the fold analyzer and of the fold
  colour ramp go through \<open>jsdiv\<close>, which answers \<open>None\<close> where the source would produce
  a non-finite number. The quotient that the fold analyzer displays and writes with
  \<open>toFixed\<close> is rounded to a double first (\<open>binary64\<close>), since its digits depend on the
  number's exact value.
\<close>

datatype StrategyType = OVERSAMPLE | UNDERSAMPLE | HYBRID | BASELINE

text \<open>The string value of each member of the enum.\<close>

fun strategyName :: "StrategyType \<Rightarrow> string" where
  "strategyName OVERSAMPLE = ''Oversample''"
| "strategyName UNDERSAMPLE = ''Undersample''"
| "strategyName HYBRID = ''Hybrid''"
| "strategyName BASELINE = ''No Resampling / Class Weights''"

record DatasetParams =
  features :: real
  minority :: real
  total :: real
  folds :: real
  sparsity :: real
  sparsityHomogeneity :: real

record RGB =
  r :: real
  g :: real
  b :: real

record FoldAnalysis =
  minPerFold :: real
  minInTraining :: real
  label :: string
  statusColor :: string
  statusBg :: string
  viabilityScore :: real
  validationRisk :: string
  trainingImpact :: string

record Recommendation =
  strategy :: StrategyType
  title :: string
  description :: string
  rationale :: string
  foldTarget :: string
  samplingMix :: string
  color :: string
  foldAnalysis :: FoldAnalysis
  sparsityWarning :: "string option"

section \<open>Configuration and constants\<close>

fun COLORS :: "StrategyType \<Rightarrow> string" where
  "COLORS OVERSAMPLE = ''#ef4444''"
| "COLORS UNDERSAMPLE = ''#3b82f6''"
| "COLORS HYBRID = ''#a855f7''"
| "COLORS BASELINE = ''#10b981''"

definition DIM_LOW :: real where "DIM_LOW = 20"
definition DIM_HIGH :: real where "DIM_HIGH = 100"
definition MIN_SAMPLES_BASE :: real where "MIN_SAMPLES_BASE = 200"
definition EFFICIENCY_RATIO :: real where "EFFICIENCY_RATIO = 60"
definition EFFICIENCY_TOTAL :: real where "EFFICIENCY_TOTAL = 150000"
definition SPARSITY_CRITICAL :: real where "SPARSITY_CRITICAL = 0.6"
definition SPARSITY_SKEWED :: real where "SPARSITY_SKEWED = 0.3"

datatype FoldStatusKey = LOO | IMPOSSIBLE | LOPO | VARIANCE | STABLE

record StatusConfig =
  cfgColor :: string
  cfgBg :: string
  cfgLabel :: string

fun FOLD_STATUS_CONFIG :: "FoldStatusKey \<Rightarrow> StatusConfig" where
  "FOLD_STATUS_CONFIG LOO =
     \<lparr>cfgColor = ''text-pink-400'', cfgBg = ''bg-pink-500/20 border-pink-500/30'',
      cfgLabel = ''Leave-One-Out Cross-Validation''\<rparr>"
| "FOLD_STATUS_CONFIG IMPOSSIBLE =
     \<lparr>cfgColor = ''text-zinc-500'', cfgBg = ''bg-zinc-800 border-zinc-700'',
      cfgLabel = ''Statistically Invalid''\<rparr>"
| "FOLD_STATUS_CONFIG LOPO =
     \<lparr>cfgColor = ''text-purple-400'', cfgBg = ''bg-purple-500/20 border-purple-500/30'',
      cfgLabel = ''Leave-One-Positive-Out (Stratified)''\<rparr>"
| "FOLD_STATUS_CONFIG VARIANCE =
     \<lparr>cfgColor = ''text-amber-400'', cfgBg = ''bg-amber-500/20 border-amber-500/30'',
      cfgLabel = ''High Variance Region''\<rparr>"
| "FOLD_STATUS_CONFIG STABLE =
     \<lparr>cfgColor = ''text-emerald-400'', cfgBg = ''bg-emerald-500/20 border-emerald-500/30'',
      cfgLabel = ''Stable Evaluation''\<rparr>"

section \<open>Math helpers\<close>

text \<open>\<open>parseInt(s, 16)\<close>: the digits of the longest hexadecimal prefix, most significant
  first. (With no digit at all the source yields \<open>NaN\<close>; the accumulator then stays 0.
  The palette strings always carry two digits per channel.)\<close>

definition hexDigit :: "char \<Rightarrow> nat option" where
  "hexDigit c =
     (let n = (of_char c :: nat) in
      if 48 \<le> n \<and> n \<le> 57 then Some (n - 48)
      else if 97 \<le> n \<and> n \<le> 102 then Some (n - 87)
      else if 65 \<le> n \<and> n \<le> 70 then Some (n - 55)
      else None)"

fun parseInt16 :: "nat \<Rightarrow> string \<Rightarrow> nat" where
  "parseInt16 acc [] = acc"
| "parseInt16 acc (c # cs) =
     (case hexDigit c of None \<Rightarrow> acc | Some d \<Rightarrow> parseInt16 (16 * acc + d) cs)"

text \<open>\<open>s.slice(i, j)\<close> for \<open>0 \<le> i \<le> j\<close>.\<close>

definition slice :: "nat \<Rightarrow> nat \<Rightarrow> string \<Rightarrow> string" where
  "slice i j s = take (j - i) (drop i s)"

definition hexToRgb :: "string \<Rightarrow> RGB" where
  "hexToRgb hex =
     \<lparr>r = real (parseInt16 0 (slice 1 3 hex)),
      g = real (parseInt16 0 (slice 3 5 hex)),
      b = real (parseInt16 0 (slice 5 7 hex))\<rparr>"

definition STRATEGY_RGB :: "StrategyType \<Rightarrow> RGB" where
  "STRATEGY_RGB t = hexToRgb (COLORS t)"

text \<open>Sigmoid for smooth transitions (base 10); the arguments are floored at 1 before
  the logarithm.\<close>

definition sigmoid :: "real \<Rightarrow> real \<Rightarrow> real \<Rightarrow> real" where
  "sigmoid val threshold k =
     (let x = log 10 (max val 1);
          t = log 10 (max threshold 1)
      in 1 / (1 + exp (- k * (x - t))))"

text \<open>Division with the zero divisor made explicit: \<open>None\<close> stands for the non-finite
  result (\<open>Infinity\<close>, \<open>-Infinity\<close> or \<open>NaN\<close>) of a division by zero.\<close>

definition jsdiv :: "real \<Rightarrow> real \<Rightarrow> real option" where
  "jsdiv x y = (if y = 0 then None else Some (x / y))"

definition Math_floor :: "real \<Rightarrow> real" where
  "Math_floor x = of_int \<lfloor>x\<rfloor>"

text \<open>\<open>Math.round\<close> rounds to the nearest integer, a tie towards \<open>+\<infinity>\<close>.\<close>

definition Math_round :: "real \<Rightarrow> real" where
  "Math_round x = of_int \<lfloor>x + 1/2\<rfloor>"

section \<open>Domain logic helpers\<close>

definition getMinorityThreshold :: "real \<Rightarrow> real" where
  "getMinorityThreshold p =
     (if p \<le> DIM_LOW then MIN_SAMPLES_BASE
      else if p \<le> DIM_HIGH then MIN_SAMPLES_BASE + (p - DIM_LOW) * 2.5
      else 400 + 200 * log 10 (p / 100))"

definition getDistanceStability :: "real \<Rightarrow> real \<Rightarrow> real" where
  "getDistanceStability sp homogeneity =
     (if sp < 0.3 then 1.0
      else
        let baseInstability = sp powr 2.5;
            distributionImpact = 0.2 + (0.8 * homogeneity);
            risk = baseInstability * distributionImpact
        in max 0 (1 - risk))"

section \<open>Core calculation engine\<close>

record WeightResult =
  wOversample :: real
  wUndersample :: real
  wHybrid :: real
  wBaseline :: real
  stability :: real
  dominantOriginal :: "StrategyType option"

text \<open>The four mutable locals \<open>wOversample\<close>, \<open>wUndersample\<close>, \<open>wHybrid\<close>, \<open>wBaseline\<close>
  of \<open>calculateWeights\<close>, in this order, threaded through its steps.\<close>

type_synonym weights = "real \<times> real \<times> real \<times> real"

fun weightSum :: "weights \<Rightarrow> real" where
  "weightSum (wO, wU, wH, wB) = wO + wU + wH + wB"

text \<open>Low, medium and high dimensionality regimes (step 3 of the source).\<close>

fun lowDimRegime :: "real \<Rightarrow> real \<Rightarrow> real \<Rightarrow> weights \<Rightarrow> weights" where
  "lowDimRegime isLowDim isTinyMin efficiencyPressure (wO, wU, wH, wB) =
     (if isLowDim > 0.01 then
        let safeScore = isLowDim * (1 - isTinyMin)
        in (wO + isLowDim * isTinyMin,
            wU + safeScore * efficiencyPressure,
            wH,
            wB + safeScore * (1 - efficiencyPressure))
      else (wO, wU, wH, wB))"

fun medDimRegime :: "real \<Rightarrow> real \<Rightarrow> real \<Rightarrow> weights \<Rightarrow> weights" where
  "medDimRegime isMedDim isTinyMin efficiencyPressure (wO, wU, wH, wB) =
     (if isMedDim > 0.01 then
        let safeScore = isMedDim * (1 - isTinyMin)
        in (wO,
            wU + safeScore * efficiencyPressure,
            wH + isMedDim * isTinyMin,
            wB + safeScore * (1 - efficiencyPressure))
      else (wO, wU, wH, wB))"

fun highDimRegime :: "real \<Rightarrow> real \<Rightarrow> weights \<Rightarrow> weights" where
  "highDimRegime isHighDim isTinyMin (wO, wU, wH, wB) =
     (if isHighDim > 0.01 then
        (wO, wU + isHighDim * (1 - isTinyMin), wH + isHighDim * isTinyMin, wB)
      else (wO, wU, wH, wB))"

text \<open>Fallback to baseline if no strategy strongly activated.\<close>

fun fallbackBaseline :: "weights \<Rightarrow> weights" where
  "fallbackBaseline (wO, wU, wH, wB) =
     (let totalW = wO + wU + wH + wB
      in if totalW < 0.001 then (wO, wU, wH, 1) else (wO, wU, wH, wB))"

text \<open>The dominant strategy before the sparsity penalties.\<close>

fun dominantStrategy :: "weights \<Rightarrow> StrategyType" where
  "dominantStrategy (wO, wU, wH, wB) =
     (let maxOrig = max (max (max wO wU) wH) wB
      in if maxOrig = wO then OVERSAMPLE
         else if maxOrig = wH then HYBRID
         else if maxOrig = wU then UNDERSAMPLE
         else BASELINE)"

text \<open>Step 4: the sparsity penalties. Each assignment of the source is one binding; the
  additions to the baseline read the oversample and hybrid weights after their update,
  as the source's statement order does.\<close>

fun applyPenalty :: "real \<Rightarrow> weights \<Rightarrow> weights" where
  "applyPenalty penalty (wO, wU, wH, wB) =
     (if penalty > 0 then
        let wO1 = wO - wO * penalty;
            wB1 = wB + wO1 * penalty;
            wH1 = wH - wH * penalty;
            wB2 = wB1 + wH1 * penalty
        in (wO1, wU, wH1, wB2)
      else (wO, wU, wH, wB))"

text \<open>Steps 1 to 3 and the fallback: the weights as they stand immediately before the
  penalty step.\<close>

definition prePenaltyWeights :: "real \<Rightarrow> real \<Rightarrow> real \<Rightarrow> weights" where
  "prePenaltyWeights p nMin nTotal =
     (let threshold = getMinorityThreshold p;
          isLowDim = 1 - sigmoid p DIM_LOW 12;
          isHighDim = sigmoid p DIM_HIGH 12;
          isMedDim = 1 - isLowDim - isHighDim;
          isTinyMin = 1 - sigmoid nMin threshold 10;
          ratio = nTotal / max 1 nMin;
          isHighRatio = sigmoid ratio EFFICIENCY_RATIO 8;
          isLargeTotal = sigmoid nTotal EFFICIENCY_TOTAL 8;
          efficiencyPressure = max isHighRatio isLargeTotal
      in fallbackBaseline
           (highDimRegime isHighDim isTinyMin
             (medDimRegime isMedDim isTinyMin efficiencyPressure
               (lowDimRegime isLowDim isTinyMin efficiencyPressure (0, 0, 0, 0)))))"

definition calculateWeights :: "real \<Rightarrow> real \<Rightarrow> real \<Rightarrow> real \<Rightarrow> real \<Rightarrow> WeightResult" where
  "calculateWeights p nMin nTotal sp homogeneity =
     (let w = prePenaltyWeights p nMin nTotal;
          dominantOrig = Some (dominantStrategy w);
          stab = getDistanceStability sp homogeneity;
          penalty = 1 - stab
      in case applyPenalty penalty w of
           (wO, wU, wH, wB) \<Rightarrow>
             \<lparr>wOversample = wO, wUndersample = wU, wHybrid = wH, wBaseline = wB,
              stability = stab, dominantOriginal = dominantOrig\<rparr>)"

section \<open>Double-precision quotients\<close>

text \<open>A division returns the binary64 number nearest to the exact quotient, a tie going to
  the even significand. The engine's comparisons and sums are taken over the reals, but
  \<open>toFixed\<close> reads the exact value of the number it is applied to, and at a decimal tie
  of the exact quotient (3/40 = 0.075) that value lies on one side of the tie
  (0.07499999999999999722...). The quotients that \<open>toFixed\<close> and the display read are
  therefore rounded to binary64 first.

  \<open>binade\<close> is the exponent \<open>e\<close> with \<open>2^e \<le> x < 2^(e+1)\<close>, found by at most 1023 halvings
  or 1022 doublings: below \<open>2^-1022\<close> it stays at \<open>-1022\<close>, the exponent of the subnormal
  numbers. The significand has 53 bits, so the numbers of that binade are the multiples
  of \<open>2^(e-52)\<close>. Overflow (a magnitude of \<open>2^1024\<close> or more, \<open>Infinity\<close> in the source) is
  not represented.\<close>

definition pow2 :: "int \<Rightarrow> real" where
  "pow2 k = (if 0 \<le> k then 2 ^ nat k else 1 / 2 ^ nat (- k))"

fun binadeUp :: "nat \<Rightarrow> real \<Rightarrow> int" where
  "binadeUp 0 x = 0"
| "binadeUp (Suc n) x = (if x < 2 then 0 else binadeUp n (x / 2) + 1)"

fun binadeDown :: "nat \<Rightarrow> real \<Rightarrow> int" where
  "binadeDown 0 x = 0"
| "binadeDown (Suc n) x = (if 1 \<le> x then 0 else binadeDown n (2 * x) - 1)"

definition binade :: "real \<Rightarrow> int" where
  "binade x = (if 1 \<le> x then binadeUp 1023 x else binadeDown 1022 x)"

text \<open>Rounding to the nearest integer, a tie going to the even one.\<close>

definition roundEven :: "real \<Rightarrow> int" where
  "roundEven y =
     (let n = \<lfloor>y\<rfloor>;
          rest = y - of_int n
      in if rest < 1/2 then n
         else if 1/2 < rest then n + 1
         else if even n then n else n + 1)"

definition binary64 :: "real \<Rightarrow> real" where
  "binary64 x =
     (if x = 0 then 0
      else
        let u = pow2 (binade \<bar>x\<bar> - 52)
        in sgn x * of_int (roundEven (\<bar>x\<bar> / u)) * u)"

section \<open>Number rendering\<close>

text \<open>\<open>x.toFixed(d)\<close> takes the integer \<open>n\<close> for which \<open>n / 10^d\<close> is closest to the exact
  value \<open>\<bar>x\<bar>\<close> of the number, the larger one of two equally close, and writes its decimal
  digits with \<open>d\<close> of them after the point, behind a minus sign when \<open>x < 0\<close>. What the
  digits are depends on that exact value: a quotient is passed as \<open>binary64\<close> of the exact
  quotient.\<close>

definition toFixedInt :: "real \<Rightarrow> nat \<Rightarrow> nat" where
  "toFixedInt x d = nat \<lfloor>\<bar>x\<bar> * 10 ^ d + 1/2\<rfloor>"

fun natDigits :: "nat \<Rightarrow> string" where
  "natDigits n =
     (if n < 10 then [char_of (48 + n)]
      else natDigits (n div 10) @ [char_of (48 + n mod 10)])"

definition toFixed :: "real \<Rightarrow> nat \<Rightarrow> string" where
  "toFixed x d =
     (let ds = natDigits (toFixedInt x d);
          padded = replicate (Suc d - length ds) (CHR ''0'') @ ds;
          whole = take (length padded - d) padded;
          frac = drop (length padded - d) padded
      in (if x < 0 then ''-'' else []) @ whole @ (if d = 0 then [] else ''.'' @ frac))"

text \<open>\<open>Number(x.toFixed(d))\<close>: the number that the string written by \<open>toFixed\<close> denotes.\<close>

definition toFixedValue :: "real \<Rightarrow> nat \<Rightarrow> real" where
  "toFixedValue x d = (if x < 0 then - 1 else 1) * real (toFixedInt x d) / 10 ^ d"

text \<open>The conversion of a number to a string inside a template literal is the shortest
  decimal rendering of a double; it is a parameter \<open>str\<close> of the functions that build
  text from numbers.\<close>

type_synonym numToString = "real \<Rightarrow> string"

text \<open>\<open>s.includes(sub)\<close>.\<close>

fun startsWith :: "string \<Rightarrow> string \<Rightarrow> bool" where
  "startsWith [] s = True"
| "startsWith (p # ps) [] = False"
| "startsWith (p # ps) (c # cs) = (p = c \<and> startsWith ps cs)"

fun includes_str :: "string \<Rightarrow> string \<Rightarrow> bool" where
  "includes_str [] sub = (sub = [])"
| "includes_str (c # cs) sub = (startsWith sub (c # cs) \<or> includes_str cs sub)"

section \<open>Visual generators\<close>

text \<open>The helper that accumulates one weighted anchor colour into \<open>r\<close>, \<open>g\<close>, \<open>b\<close>.\<close>

definition accumulate :: "real \<Rightarrow> real \<Rightarrow> StrategyType \<Rightarrow> RGB \<Rightarrow> RGB" where
  "accumulate totalWeight weight ty acc =
     (if weight > 0 then
        let normW = weight / totalWeight;
            c = STRATEGY_RGB ty
        in \<lparr>r = r acc + r c * normW, g = g acc + g c * normW, b = b acc + b c * normW\<rparr>
      else acc)"

definition getSmoothStrategyRGB :: "real \<Rightarrow> real \<Rightarrow> real \<Rightarrow> real \<Rightarrow> real \<Rightarrow> RGB" where
  "getSmoothStrategyRGB p nMin nTotal sp homogeneity =
     (let w = calculateWeights p nMin nTotal sp homogeneity;
          s = wOversample w + wUndersample w + wHybrid w + wBaseline w;
          totalWeight = (if s = 0 then 1 else s)
      in accumulate totalWeight (wBaseline w) BASELINE
           (accumulate totalWeight (wHybrid w) HYBRID
             (accumulate totalWeight (wUndersample w) UNDERSAMPLE
               (accumulate totalWeight (wOversample w) OVERSAMPLE \<lparr>r = 0, g = 0, b = 0\<rparr>))))"

definition getFoldStabilityRGB :: "real \<Rightarrow> real \<Rightarrow> RGB option" where
  "getFoldStabilityRGB nMin nFolds =
     (case jsdiv nMin (max 1 nFolds) of
        None \<Rightarrow> None
      | Some perFold \<Rightarrow>
          Some (if perFold < 1 then \<lparr>r = 20, g = 10, b = 10\<rparr>
                else if perFold < 5 then \<lparr>r = 220, g = 40, b = 40\<rparr>
                else if perFold < 30 then
                  let t = (perFold - 5) / 25
                  in \<lparr>r = 239 + (16 - 239) * t, g = 68 + (185 - 68) * t, b = 68 + (129 - 68) * t\<rparr>
                else \<lparr>r = 16, g = 185, b = 129\<rparr>))"

section \<open>Fold analyzer\<close>

definition effectiveFolds :: "real \<Rightarrow> real \<Rightarrow> real" where
  "effectiveFolds nFolds nTotal = min nFolds nTotal"

definition isLOOCV :: "real \<Rightarrow> real \<Rightarrow> bool" where
  "isLOOCV eFolds nTotal = (eFolds \<ge> nTotal \<or> eFolds \<ge> 5000)"

definition isStratificationImpossible :: "real \<Rightarrow> real \<Rightarrow> bool" where
  "isStratificationImpossible eFolds nMin = (eFolds > nMin)"

text \<open>The chain of conditions that assigns \<open>statusKey\<close>, \<open>validationRisk\<close> and
  \<open>trainingImpact\<close>.\<close>

definition classifyFolds ::
  "numToString \<Rightarrow> real \<Rightarrow> real \<Rightarrow> real \<Rightarrow> real \<Rightarrow> FoldStatusKey \<times> string \<times> string" where
  "classifyFolds str nMin nTotal eFolds perFold =
     (if isLOOCV eFolds nTotal then
        (LOO,
         ''Validation reduces to binary (0/1) loss. Probability calibration is impossible.'',
         ''Maximizes training data (N='' @ str (nTotal - 1) @ ''), but computationally expensive.'')
      else if isStratificationImpossible eFolds nMin then
        (IMPOSSIBLE,
         ''Folds (k='' @ str eFolds @ '') > Minority Samples ('' @ str nMin
           @ ''). Stratification is impossible.'',
         ''N/A'')
      else if perFold < 1.5 then
        (LOPO,
         ''Single positive sample per fold prevents variance estimation.'',
         ''Maximized Training (~'' @ str (nMin - 1) @ '' positives per round).'')
      else if perFold < 15 then
        (VARIANCE,
         ''Low density ('' @ toFixed (binary64 perFold) 1
           @ '' samples/fold) results in noisy performance metrics.'',
         ''High training data retention, but reduced validation reliability.'')
      else
        (STABLE,
         ''Sufficient density for stable metric estimation (e.g., AUC-ROC, F1).'',
         ''Standard Stratified K-Fold Split.''))"

definition analyzeFolds :: "numToString \<Rightarrow> real \<Rightarrow> real \<Rightarrow> real \<Rightarrow> FoldAnalysis option" where
  "analyzeFolds str nMin nFolds nTotal =
     (let eFolds = effectiveFolds nFolds nTotal
      in case jsdiv nMin eFolds of
           None \<Rightarrow> None
         | Some perFold \<Rightarrow>
            (case jsdiv (eFolds - 1) eFolds of
               None \<Rightarrow> None
             | Some keep \<Rightarrow>
                 let inTraining = Math_floor (nMin * keep);
                     score = min 100 ((perFold / 30) * 100)
                 in case classifyFolds str nMin nTotal eFolds perFold of
                      (statusKey, risk, impact) \<Rightarrow>
                        let config = FOLD_STATUS_CONFIG statusKey;
                            displayMinPerFold =
                              (let d = binary64 perFold
                               in if d < 1 then toFixedValue d 2 else Math_floor d)
                        in Some
                             \<lparr>minPerFold = displayMinPerFold,
                              minInTraining = inTraining,
                              label = cfgLabel config,
                              statusColor = cfgColor config,
                              statusBg = cfgBg config,
                              viabilityScore =
                                (if isStratificationImpossible eFolds nMin \<and> \<not> isLOOCV eFolds nTotal
                                 then 0 else score),
                              validationRisk = risk,
                              trainingImpact = impact\<rparr>))"

section \<open>Main recommendation\<close>

text \<open>Determine the winner: baseline first, then overridden in sequence by a strictly
  larger oversample, hybrid and undersample weight.\<close>

definition selectStrategy :: "WeightResult \<Rightarrow> StrategyType" where
  "selectStrategy w =
     (let s0 = BASELINE; m0 = wBaseline w;
          (s1, m1) = (if wOversample w > m0 then (OVERSAMPLE, wOversample w) else (s0, m0));
          (s2, m2) = (if wHybrid w > m1 then (HYBRID, wHybrid w) else (s1, m1));
          (s3, m3) = (if wUndersample w > m2 then (UNDERSAMPLE, wUndersample w) else (s2, m2))
      in s3)"

definition wasForcedToBaseline :: "StrategyType \<Rightarrow> StrategyType option \<Rightarrow> bool" where
  "wasForcedToBaseline strat dominantOrig =
     (strat = BASELINE \<and> (dominantOrig = Some OVERSAMPLE \<or> dominantOrig = Some HYBRID))"

text \<open>A \<open>StrategyType | null\<close> inside a template literal.\<close>

definition dominantText :: "StrategyType option \<Rightarrow> string" where
  "dominantText d = (case d of None \<Rightarrow> ''null'' | Some t \<Rightarrow> strategyName t)"

text \<open>The two characters of the texts outside ASCII, as their UTF-8 bytes.\<close>

definition emDash :: string where
  "emDash = [CHR 0xE2, CHR 0x80, CHR 0x94]"

definition lessEqualSign :: string where
  "lessEqualSign = [CHR 0xE2, CHR 0x89, CHR 0xA4]"

text \<open>The branch taken when the sparsity penalty forced the baseline.\<close>

definition forcedNarrative ::
  "numToString \<Rightarrow> real \<Rightarrow> real \<Rightarrow> real \<Rightarrow> StrategyType option \<Rightarrow> Recommendation \<Rightarrow> Recommendation" where
  "forcedNarrative str sp homogeneity stab dominantOrig result =
     (if sp > 0.5 \<and> homogeneity < 0.3 then
        result
          \<lparr>title := ''Specialized '' @ dominantText dominantOrig,
           description := ''Structured Sparsity Detected.'',
           rationale := ''High sparsity ('' @ str (Math_round (sp * 100))
             @ ''%) but concentrated. Standard interpolation (SMOTE) is unreliable. ''
             @ ''Strategy: Process features separately'' @ emDash
             @ ''interpolate dense columns, impute sparse ones.'',
           sparsityWarning := Some ''Recommendation: Utilize SMOTE-NC or feature-specific handling.'',
           color := COLORS (case dominantOrig of None \<Rightarrow> HYBRID | Some t \<Rightarrow> t)\<rparr>
      else
        result
          \<lparr>title := ''No Resampling / Class Weights'',
           description := ''Uniform Sparsity Risks Interpolation.'',
           rationale := ''Normally '' @ dominantText dominantOrig @ '' is best, but ''
             @ str (Math_round (sp * 100)) @ ''% uniform sparsity (Stability: ''
             @ toFixed stab 2
             @ '') renders synthetic neighborhood generation unreliable. Use Class Weights.'',
           sparsityWarning := Some ''Critical Sparsity: Euclidean distance metrics are unstable.''\<rparr>)"

text \<open>The three dimensionality bands, each split on \<open>minority < threshold\<close>.\<close>

definition bandNarrative ::
  "numToString \<Rightarrow> real \<Rightarrow> real \<Rightarrow> real \<Rightarrow> real \<Rightarrow> string \<Rightarrow> bool \<Rightarrow> Recommendation \<Rightarrow> Recommendation" where
  "bandNarrative str p nMin threshold ratio transitionNote useUndersampling result =
     (if p \<le> DIM_LOW then
        (if nMin < threshold then
           result
             \<lparr>title := ''Oversampling or Hybrid'',
              description := ''Small Dataset, Low Dimensionality.'',
              rationale := ''High scarcity relative to feature space (p='' @ str p @ '').''
                @ transitionNote
                @ '' Avoid data reduction. Augment minority class via synthetic generation (e.g., SMOTE).''\<rparr>
         else
           result
             \<lparr>title := (if useUndersampling then ''Undersampling (Efficiency Priority)''
                        else ''No Resampling / Class Weights''),
              description := (if useUndersampling
                              then (if ratio > EFFICIENCY_RATIO then ''Extreme Class Imbalance.''
                                    else ''Large Scale Dataset.'')
                              else ''Sufficient Signal Strength.''),
              rationale := (if useUndersampling
                            then ''Efficiency required. ''
                              @ (if ratio > EFFICIENCY_RATIO
                                 then ''Class imbalance (1:'' @ toFixed ratio 0 @ '') is extreme.''
                                 else ''Dataset magnitude justifies downsampling for computational feasibility.'')
                            else ''Signal-to-noise ratio likely sufficient.'' @ transitionNote
                              @ '' Utilize Class Weights or Cost-Sensitive Learning.'')\<rparr>)
      else if p \<le> DIM_HIGH then
        (if nMin < threshold then
           result
             \<lparr>title := ''Hybrid Strategy (Over + Under)'',
              description := ''High Dimensionality Relative to Minority Count.'',
              rationale := ''Need ~'' @ str (Math_round threshold)
                @ '' samples to trust distribution.'' @ transitionNote
                @ '' Pure oversampling may amplify noise. Recommended: Hybrid approach (e.g., SMOTE + Edited Nearest Neighbors).''\<rparr>
         else
           result
             \<lparr>title := (if useUndersampling then ''Undersampling (Efficiency Priority)''
                        else ''No Resampling / Hybrid''),
              description := (if useUndersampling then ''Moderate Sample Regime, High Efficiency.''
                              else ''Moderate Sample Regime.''),
              rationale := (if useUndersampling
                            then ''Undersampling optimal for speed and 1:'' @ toFixed ratio 0 @ '' ratio.''
                            else ''Prioritize Class Weights. If Recall is insufficient, introduce mild oversampling.'')\<rparr>)
      else
        (if nMin < threshold then
           result
             \<lparr>title := ''Hybrid or Algorithmic Approaches'',
              description := ''High-Dimensional, Sparse Regime.'',
              rationale := ''High dimensionality (p='' @ str p
                @ '') induces sparsity (Curse of Dimensionality).'' @ transitionNote
                @ '' Combine generation with aggressive cleaning (Hybrid) or utilize Anomaly Detection models.''\<rparr>
         else
           result
             \<lparr>title := ''Undersampling Strategy'',
              description := ''High-Dimensional, Large Scale Data.'',
              rationale := ''Undersampling reduces computational load and noise without disrupting the manifold structure in high dimensions.''\<rparr>))"

text \<open>The warning set when none is set yet and the sparsity is critical. An absent and an
  empty warning are both falsy.\<close>

definition sparsityNote :: "real \<Rightarrow> real \<Rightarrow> Recommendation \<Rightarrow> Recommendation" where
  "sparsityNote sp homogeneity result =
     (if (sparsityWarning result = None \<or> sparsityWarning result = Some [])
         \<and> sp > SPARSITY_CRITICAL
      then result
             \<lparr>sparsityWarning :=
                Some (if homogeneity < 0.4
                      then ''Structured Sparsity: Use Nominal/Continuous variants (e.g., SMOTE-NC).''
                      else ''Caution: High sparsity reduces distance metric reliability.'')\<rparr>
      else result)"

text \<open>Fold target and sampling mix.\<close>

definition foldTargetStep ::
  "numToString \<Rightarrow> real \<Rightarrow> real \<Rightarrow> Recommendation \<Rightarrow> Recommendation" where
  "foldTargetStep str nMin nFolds result =
     (if includes_str (label (foldAnalysis result)) ''Leave-One-Out'' then
        result
          \<lparr>foldTarget := ''Leave-One-Out (LOOCV)'',
           samplingMix := ''N/A (All data utilized).''\<rparr>
      else if nFolds > nMin then
        result
          \<lparr>foldTarget := ''INVALID CONFIGURATION'',
           samplingMix := ''Cannot stratify '' @ str nFolds @ '' folds with '' @ str nMin @ '' samples.''\<rparr>
      else if nMin < 200 then
        result
          \<lparr>foldTarget := ''Target >15 samples per fold (Current: ''
             @ str (minPerFold (foldAnalysis result)) @ '').'',
           samplingMix := ''Primary: Oversampling. Maintain synthetic ratio '' @ lessEqualSign @ '' 3:1.''\<rparr>
      else if nMin < 500 then
        result
          \<lparr>foldTarget := ''Target >30 samples per fold (Current: ''
             @ str (minPerFold (foldAnalysis result)) @ '').'',
           samplingMix := ''Baseline: None. If unstable, introduce moderate oversampling.''\<rparr>
      else
        result
          \<lparr>foldTarget := ''Sufficient Minority Samples.'',
           samplingMix := ''Undersampling or Ensemble Methods.''\<rparr>)"

definition analyzeDataset :: "numToString \<Rightarrow> DatasetParams \<Rightarrow> Recommendation option" where
  "analyzeDataset str params =
     (let weights = calculateWeights (features params) (minority params) (total params)
                      (sparsity params) (sparsityHomogeneity params);
          strat = selectStrategy weights
      in case analyzeFolds str (minority params) (folds params) (total params) of
           None \<Rightarrow> None
         | Some fa \<Rightarrow>
             let threshold = getMinorityThreshold (features params);
                 ratio = total params / max 1 (minority params);
                 result =
                   \<lparr>strategy = strat, title = strategyName strat, description = [],
                    rationale = [], foldTarget = [], samplingMix = [],
                    color = COLORS strat, foldAnalysis = fa, sparsityWarning = None\<rparr>;
                 transitionNote =
                   (if minority params > threshold * 0.8 \<and> minority params < threshold * 1.2
                    then '' You are in a complex transition zone. '' else []);
                 forced = wasForcedToBaseline strat (dominantOriginal weights);
                 useUndersampling = (strat = UNDERSAMPLE);
                 narrated =
                   (if forced
                    then forcedNarrative str (sparsity params) (sparsityHomogeneity params)
                           (stability weights) (dominantOriginal weights) result
                    else bandNarrative str (features params) (minority params) threshold ratio
                           transitionNote useUndersampling result)
             in Some (foldTargetStep str (minority params) (folds params)
                        (sparsityNote (sparsity params) (sparsityHomogeneity params) narrated)))"

section \<open>The specification's reading of the fold analyzer\<close>

text \<open>The classification order as the specification words it: the first match wins.\<close>

definition spec_foldStatus :: "real \<Rightarrow> real \<Rightarrow> real \<Rightarrow> FoldStatusKey" where
  "spec_foldStatus nMin nFolds nTotal =
     (let eFolds = min nFolds nTotal;
          perFold = nMin / eFolds
      in if eFolds \<ge> nTotal \<or> eFolds \<ge> 5000 then LOO
         else if eFolds > nMin then IMPOSSIBLE
         else if perFold < 1.5 then LOPO
         else if perFold < 15 then VARIANCE
         else STABLE)"

text \<open>Truncation to two decimals (rounding towards zero), as the specification words the
  displayed \<open>minPerFold\<close> below 1.\<close>

definition truncate2 :: "real \<Rightarrow> real" where
  "truncate2 x = (if 0 \<le> x then of_int \<lfloor>x * 100\<rfloor> else of_int \<lceil>x * 100\<rceil>) / 100"

text \<open>All four weights are non-negative.\<close>

fun nonnegWeights :: "weights \<Rightarrow> bool" where
  "nonnegWeights (wO, wU, wH, wB) = (0 \<le> wO \<and> 0 \<le> wU \<and> 0 \<le> wH \<and> 0 \<le> wB)"

section \<open>Properties of the fold analyzer\<close>

lemma analyzeFolds_nonzero:
  assumes "effectiveFolds nFolds nTotal \<noteq> 0"
  shows "analyzeFolds str nMin nFolds nTotal =
     (let eFolds = effectiveFolds nFolds nTotal;
          perFold = nMin / eFolds;
          klass = classifyFolds str nMin nTotal eFolds perFold;
          config = FOLD_STATUS_CONFIG (fst klass)
      in Some \<lparr>minPerFold =
                 (if binary64 perFold < 1 then toFixedValue (binary64 perFold) 2
                  else Math_floor (binary64 perFold)),
               minInTraining = Math_floor (nMin * ((eFolds - 1) / eFolds)),
               label = cfgLabel config,
               statusColor = cfgColor config,
               statusBg = cfgBg config,
               viabilityScore =
                 (if isStratificationImpossible eFolds nMin \<and> \<not> isLOOCV eFolds nTotal
                  then 0 else min 100 ((perFold / 30) * 100)),
               validationRisk = fst (snd klass),
               trainingImpact = snd (snd klass)\<rparr>)"
  using assms by (simp add: analyzeFolds_def jsdiv_def Let_def split: prod.splits)

lemma analyzeFolds_zero:
  "effectiveFolds nFolds nTotal = 0 \<Longrightarrow> analyzeFolds str nMin nFolds nTotal = None"
  by (simp add: analyzeFolds_def jsdiv_def Let_def)

lemma effectiveFolds_ge_one:
  "1 \<le> nFolds \<Longrightarrow> 1 \<le> nTotal \<Longrightarrow> 1 \<le> effectiveFolds nFolds nTotal"
  by (simp add: effectiveFolds_def)

lemma classifyFolds_key:
  "fst (classifyFolds str nMin nTotal (min nFolds nTotal) (nMin / min nFolds nTotal))
     = spec_foldStatus nMin nFolds nTotal"
proof -
  define e where "e = min nFolds nTotal"
  show ?thesis
    unfolding spec_foldStatus_def Let_def e_def [symmetric]
    by (simp add: classifyFolds_def isLOOCV_def isStratificationImpossible_def)
qed

lemma analyzeFolds_status_order_aux:
  assumes "1 \<le> nFolds" and "1 \<le> nTotal"
  shows "\<exists>fa. analyzeFolds str nMin nFolds nTotal = Some fa
           \<and> label fa = cfgLabel (FOLD_STATUS_CONFIG (spec_foldStatus nMin nFolds nTotal))
           \<and> statusColor fa = cfgColor (FOLD_STATUS_CONFIG (spec_foldStatus nMin nFolds nTotal))
           \<and> statusBg fa = cfgBg (FOLD_STATUS_CONFIG (spec_foldStatus nMin nFolds nTotal))"
proof -
  have nz: "effectiveFolds nFolds nTotal \<noteq> 0"
    using effectiveFolds_ge_one [OF assms] by simp
  show ?thesis
    unfolding analyzeFolds_nonzero [OF nz]
    by (simp add: Let_def effectiveFolds_def classifyFolds_key)
qed



text \<open>Claim C6. For every minority \<open>\<ge> 0\<close>, folds \<open>\<ge> 1\<close> and total \<open>\<ge> 1\<close>, the
  viability score is \<open>min 100 (minPerFold / 30 * 100)\<close>, except that it is exactly 0 when
  stratification is impossible and the input is not a Leave-One-Out case; it always lies
  between 0 and 100.\<close>

theorem analyzeFolds_viabilityScore:
  assumes "0 \<le> nMin" and "1 \<le> nFolds" and "1 \<le> nTotal"
  shows "\<exists>fa. analyzeFolds str nMin nFolds nTotal = Some fa
           \<and> viabilityScore fa =
               (if min nFolds nTotal > nMin
                   \<and> \<not> (min nFolds nTotal \<ge> nTotal \<or> min nFolds nTotal \<ge> 5000)
                then 0
                else min 100 (nMin / min nFolds nTotal / 30 * 100))
           \<and> 0 \<le> viabilityScore fa \<and> viabilityScore fa \<le> 100"
proof -
  have ge: "1 \<le> effectiveFolds nFolds nTotal"
    by (rule effectiveFolds_ge_one [OF assms(2,3)])
  then have nz: "effectiveFolds nFolds nTotal \<noteq> 0" by simp
  have pos: "0 \<le> nMin / min nFolds nTotal"
    using assms by simp
  show ?thesis
    unfolding analyzeFolds_nonzero [OF nz]
    using pos
    by (simp add: Let_def effectiveFolds_def isLOOCV_def isStratificationImpossible_def)
qed

theorem analyzeFolds_viabilityScore_witness:
  "(\<exists>fa. analyzeFolds (\<lambda>x. []) 150 5 2000 = Some fa \<and> viabilityScore fa = 100)
   \<and> (\<exists>fa. analyzeFolds (\<lambda>x. []) 10 20 2000 = Some fa \<and> viabilityScore fa = 0)
   \<and> (\<exists>fa. analyzeFolds (\<lambda>x. []) 30 5 2000 = Some fa \<and> viabilityScore fa = 20)"
  using analyzeFolds_viabilityScore [of 150 5 2000 "\<lambda>x. []"]
    analyzeFolds_viabilityScore [of 10 20 2000 "\<lambda>x. []"]
    analyzeFolds_viabilityScore [of 30 5 2000 "\<lambda>x. []"]
  by auto

subsection \<open>The binary64 quotient\<close>

text \<open>Evaluation of the binade search at a numeral.\<close>

lemma binadeDown_numeral:
  "binadeDown (numeral k) x = (if 1 \<le> x then 0 else binadeDown (pred_numeral k) (2 * x) - 1)"
  by (simp add: numeral_eq_Suc)

lemma binadeUp_numeral:
  "binadeUp (numeral k) x = (if x < 2 then 0 else binadeUp (pred_numeral k) (x / 2) + 1)"
  by (simp add: numeral_eq_Suc)

lemmas binary64_eval =
  binary64_def binade_def binadeDown_numeral binadeUp_numeral pow2_def roundEven_def Let_def

lemma binary64_two_thirds: "binary64 (2 / 3) = 6004799503160661 / 2 ^ 53"
  by (simp add: binary64_eval)

lemma binary64_3_40: "binary64 (3 / 40) = 5404319552844595 / 2 ^ 56"
  by (simp add: binary64_eval)

lemma binary64_17_40: "binary64 (17 / 40) = 7656119366529843 / 2 ^ 54"
  by (simp add: binary64_eval)

lemma binary64_eighth: "binary64 (1 / 8) = 1 / 8"
  by (simp add: binary64_eval)

lemma binary64_7_2: "binary64 (7 / 2) = 7 / 2"
  by (simp add: binary64_eval)

lemma pow2_pos: "0 < pow2 k"
  by (simp add: pow2_def)

lemma roundEven_nonneg: "0 \<le> y \<Longrightarrow> 0 \<le> roundEven y"
proof -
  assume "0 \<le> y"
  then have "0 \<le> \<lfloor>y\<rfloor>" by simp
  then show ?thesis by (simp add: roundEven_def Let_def)
qed

lemma binary64_nonneg: "0 \<le> x \<Longrightarrow> 0 \<le> binary64 x"
proof (cases "x = 0")
  case True
  then show ?thesis by (simp add: binary64_def)
next
  case False
  assume "0 \<le> x"
  with False have x: "0 < x" by simp
  have "0 \<le> \<bar>x\<bar> / pow2 (binade \<bar>x\<bar> - 52)"
    using pow2_pos [of "binade \<bar>x\<bar> - 52"] by simp
  then have "0 \<le> roundEven (\<bar>x\<bar> / pow2 (binade \<bar>x\<bar> - 52))"
    by (rule roundEven_nonneg)
  then show ?thesis
    using x pow2_pos [of "binade \<bar>x\<bar> - 52"] by (simp add: binary64_def Let_def)
qed

lemma toFixedValue_nonneg:
  "0 \<le> x \<Longrightarrow> toFixedValue x d = of_int \<lfloor>x * 10 ^ d + 1/2\<rfloor> / 10 ^ d"
proof -
  assume x: "0 \<le> x"
  then have "0 \<le> x * 10 ^ d + 1/2" by simp
  then have "0 \<le> \<lfloor>x * 10 ^ d + 1/2\<rfloor>" by simp
  then show ?thesis using x by (simp add: toFixedValue_def toFixedInt_def)
qed

lemma pow2_powr: "pow2 k = 2 powr (of_int k)"
proof (cases "0 \<le> k")
  case True
  then have "(2::real) powr (of_int k) = 2 powr (real (nat k))" by simp
  also have "\<dots> = 2 ^ nat k" by (simp add: powr_realpow)
  finally show ?thesis using True by (simp add: pow2_def)
next
  case False
  then have "(2::real) powr (of_int k) = 2 powr (- real (nat (- k)))" by simp
  also have "\<dots> = 1 / 2 powr (real (nat (- k)))" by (simp add: powr_minus_divide)
  also have "\<dots> = 1 / 2 ^ nat (- k)" by (simp add: powr_realpow)
  finally show ?thesis using False by (simp add: pow2_def)
qed

lemma pow2_add: "pow2 (j + k) = pow2 j * pow2 k"
  by (simp add: pow2_powr powr_add)

lemma pow2_Suc: "pow2 (k + 1) = 2 * pow2 k"
  using pow2_add [of k 1] by (simp add: pow2_def)

lemma pow2_pred: "pow2 (k - 1) = pow2 k / 2"
  using pow2_Suc [of "k - 1"] by simp

lemma binadeUp_bounds:
  "1 \<le> x \<Longrightarrow> x < 2 * 2 ^ n \<Longrightarrow>
     pow2 (binadeUp n x) \<le> x \<and> x < 2 * pow2 (binadeUp n x)"
proof (induction n arbitrary: x)
  case 0
  then show ?case by (simp add: pow2_def)
next
  case (Suc n)
  show ?case
  proof (cases "x < 2")
    case True
    then show ?thesis using Suc.prems by (simp add: pow2_def)
  next
    case False
    then have "1 \<le> x / 2" "x / 2 < 2 * 2 ^ n" using Suc.prems by simp_all
    then have "pow2 (binadeUp n (x / 2)) \<le> x / 2 \<and> x / 2 < 2 * pow2 (binadeUp n (x / 2))"
      by (rule Suc.IH)
    then show ?thesis using False by (simp add: pow2_Suc)
  qed
qed

lemma binadeDown_bounds:
  "0 < x \<Longrightarrow> x < 1 \<Longrightarrow> 1 \<le> x * 2 ^ n \<Longrightarrow>
     pow2 (binadeDown n x) \<le> x \<and> x < 2 * pow2 (binadeDown n x)"
proof (induction n arbitrary: x)
  case 0
  then show ?case by simp
next
  case (Suc n)
  show ?case
  proof (cases "1 \<le> 2 * x")
    case True
    have "binadeDown (Suc n) x = binadeDown n (2 * x) - 1"
      using Suc.prems by simp
    also have "binadeDown n (2 * x) = 0"
      using True by (cases n) simp_all
    finally have "binadeDown (Suc n) x = - 1" by simp
    then show ?thesis using True Suc.prems by (simp add: pow2_def)
  next
    case False
    then have "0 < 2 * x" "2 * x < 1" "1 \<le> (2 * x) * 2 ^ n"
      using Suc.prems by (simp_all add: mult.assoc)
    then have "pow2 (binadeDown n (2 * x)) \<le> 2 * x
        \<and> 2 * x < 2 * pow2 (binadeDown n (2 * x))"
      by (rule Suc.IH)
    then show ?thesis using Suc.prems by (simp add: pow2_pred)
  qed
qed

text \<open>In the range of the normal numbers the binade holds the argument.\<close>

lemma binade_bounds:
  assumes "pow2 (- 1022) \<le> x" and "x < pow2 1024"
  shows "pow2 (binade x) \<le> x \<and> x < 2 * pow2 (binade x)"
proof (cases "1 \<le> x")
  case True
  have "x < 2 * 2 ^ 1023" using assms(2) by (simp add: pow2_def)
  then show ?thesis
    using True binadeUp_bounds [of x 1023] by (simp add: binade_def)
next
  case False
  have pos: "0 < x" using assms(1) pow2_pos [of "- 1022"] by linarith
  have "1 \<le> x * 2 ^ 1022"
    using assms(1) by (simp add: pow2_def field_simps)
  then show ?thesis
    using False pos binadeDown_bounds [of x 1022] by (simp add: binade_def)
qed

lemma roundEven_near: "\<bar>of_int (roundEven y) - y\<bar> \<le> 1/2"
proof -
  have "of_int \<lfloor>y\<rfloor> \<le> y" "y < of_int \<lfloor>y\<rfloor> + 1" by linarith+
  then show ?thesis
    by (auto simp add: roundEven_def Let_def)
qed

text \<open>The rounded number is within half a unit in the last place of its argument, so
  within one part in \<open>2^53\<close>.\<close>

lemma binary64_relative_error:
  assumes "pow2 (- 1022) \<le> x" and "x < pow2 1024"
  shows "\<bar>binary64 x - x\<bar> \<le> x / 2 ^ 53"
proof -
  define u where "u = pow2 (binade x - 52)"
  have pos: "0 < x" using assms(1) pow2_pos [of "- 1022"] by linarith
  have u: "0 < u" unfolding u_def by (rule pow2_pos)
  have ue: "u = pow2 (binade x) / 2 ^ 52"
    using pow2_add [of "binade x" "- 52"] by (simp add: u_def pow2_def)
  have "pow2 (binade x) \<le> x" using binade_bounds [OF assms] by simp
  then have ux: "u / 2 \<le> x / 2 ^ 53" by (simp add: ue)
  have b: "binary64 x = of_int (roundEven (x / u)) * u"
    using pos by (simp add: binary64_def Let_def u_def)
  have "\<bar>of_int (roundEven (x / u)) - x / u\<bar> * u \<le> (1/2) * u"
    using roundEven_near [of "x / u"] u by (intro mult_right_mono) simp_all
  moreover have "\<bar>of_int (roundEven (x / u)) - x / u\<bar> * u
      = \<bar>of_int (roundEven (x / u)) * u - x\<bar>"
  proof -
    have "\<bar>of_int (roundEven (x / u)) - x / u\<bar> * u
        = \<bar>(of_int (roundEven (x / u)) - x / u) * u\<bar>"
      using u by (simp add: abs_mult)
    also have "(of_int (roundEven (x / u)) - x / u) * u = of_int (roundEven (x / u)) * u - x"
      using u by (simp add: algebra_simps)
    finally show ?thesis .
  qed
  ultimately have "\<bar>binary64 x - x\<bar> \<le> u / 2" by (simp add: b)
  then show ?thesis using ux by linarith
qed

subsection \<open>The displayed minPerFold\<close>

text \<open>Claim C4, as amended. For every minority \<open>\<ge> 0\<close>, folds \<open>\<ge> 1\<close> and total \<open>\<ge> 1\<close>,
  the displayed \<open>minPerFold\<close> is obtained from the quotient \<open>minority / min folds total\<close> as
  the division returns it, a binary64 number: when that number is below 1 it is rounded to
  the nearest multiple of 1/100, a tie going to the larger multiple, as \<open>toFixed(2)\<close> rounds
  it (not truncated); otherwise its floor is taken. The witness evaluates quotients on
  either side of a decimal tie (3/40 displays 0.07, 17/40 displays 0.42), an exact binary
  tie (1/8 displays 0.13) and the floor branch.\<close>

theorem analyzeFolds_minPerFold_rounded:
  assumes "0 \<le> nMin" and "1 \<le> nFolds" and "1 \<le> nTotal"
  shows "\<exists>fa. analyzeFolds str nMin nFolds nTotal = Some fa
           \<and> minPerFold fa =
               (if binary64 (nMin / min nFolds nTotal) < 1
                then of_int \<lfloor>binary64 (nMin / min nFolds nTotal) * 100 + 1/2\<rfloor> / 100
                else of_int \<lfloor>binary64 (nMin / min nFolds nTotal)\<rfloor>)
           \<and> (binary64 (nMin / min nFolds nTotal) < 1
                \<longrightarrow> \<bar>minPerFold fa - binary64 (nMin / min nFolds nTotal)\<bar> \<le> 1/200)"
proof -
  define q where "q = binary64 (nMin / min nFolds nTotal)"
  have nz: "effectiveFolds nFolds nTotal \<noteq> 0"
    using effectiveFolds_ge_one [OF assms(2,3)] by simp
  have "0 \<le> nMin / min nFolds nTotal" using assms by simp
  then have q0: "0 \<le> q" unfolding q_def by (rule binary64_nonneg)
  have fx: "toFixedValue q 2 = of_int \<lfloor>q * 100 + 1/2\<rfloor> / 100"
    using toFixedValue_nonneg [OF q0, of 2] by simp
  have near: "\<bar>of_int \<lfloor>q * 100 + 1/2\<rfloor> / 100 - q\<bar> \<le> 1/200"
  proof -
    define n where "n = \<lfloor>q * 100 + 1/2\<rfloor>"
    have lo: "real_of_int n \<le> q * 100 + 1/2"
      unfolding n_def by (rule of_int_floor_le)
    have hi: "q * 100 + 1/2 < real_of_int n + 1"
      unfolding n_def by linarith
    have "\<bar>real_of_int n / 100 - q\<bar> \<le> 1/200"
      using lo hi by linarith
    then show ?thesis by (simp only: n_def)
  qed
  show ?thesis
    unfolding analyzeFolds_nonzero [OF nz] q_def [symmetric]
    using near
    by (simp add: Let_def effectiveFolds_def q_def [symmetric] fx Math_floor_def)
qed

theorem analyzeFolds_minPerFold_rounded_witness:
  "(\<exists>fa. analyzeFolds (\<lambda>x. []) 2 3 10 = Some fa \<and> minPerFold fa = 67/100)
   \<and> (\<exists>fa. analyzeFolds (\<lambda>x. []) 3 40 2000 = Some fa \<and> minPerFold fa = 7/100)
   \<and> (\<exists>fa. analyzeFolds (\<lambda>x. []) 17 40 2000 = Some fa \<and> minPerFold fa = 42/100)
   \<and> (\<exists>fa. analyzeFolds (\<lambda>x. []) 1 8 2000 = Some fa \<and> minPerFold fa = 13/100)
   \<and> (\<exists>fa. analyzeFolds (\<lambda>x. []) 7 2 10 = Some fa \<and> minPerFold fa = 3)"
  using analyzeFolds_minPerFold_rounded [of 2 3 10 "\<lambda>x. []"]
    analyzeFolds_minPerFold_rounded [of 3 40 2000 "\<lambda>x. []"]
    analyzeFolds_minPerFold_rounded [of 17 40 2000 "\<lambda>x. []"]
    analyzeFolds_minPerFold_rounded [of 1 8 2000 "\<lambda>x. []"]
    analyzeFolds_minPerFold_rounded [of 7 2 10 "\<lambda>x. []"]
  by (auto simp add: binary64_two_thirds binary64_3_40 binary64_17_40 binary64_eighth
      binary64_7_2)

text \<open>Claim C4 as stated fails: with minority 2, folds 3 and total 10 the quotient is
  2/3, \<open>toFixed\<close> writes \<open>0.67\<close>, and truncation to two decimals would give \<open>0.66\<close>.\<close>

theorem analyzeFolds_minPerFold_not_truncated:
  "(2::real) / min 3 10 < 1
   \<and> map_option minPerFold (analyzeFolds (\<lambda>x. []) 2 3 10) = Some (67/100)
   \<and> truncate2 (2 / min 3 10) = 66/100
   \<and> truncate2 (binary64 (2 / min 3 10)) = 66/100"
proof -
  have nz: "effectiveFolds 3 10 \<noteq> 0" by (simp add: effectiveFolds_def)
  show ?thesis
    unfolding analyzeFolds_nonzero [OF nz]
    by (simp add: Let_def effectiveFolds_def toFixedValue_def toFixedInt_def truncate2_def
        binary64_two_thirds)
qed

text \<open>Claim C10. With folds \<open>\<ge> 1\<close> and total \<open>\<ge> 1\<close> the divisor \<open>effectiveFolds\<close> of both
  divisions of \<open>analyzeFolds\<close> is at least 1 and the analysis is returned. The divisor is
  not floored: with total 0 (and folds \<open>\<ge> 1\<close>) it is 0 and the numeric fields are not
  finite numbers. \<open>getFoldStabilityRGB\<close> divides by \<open>max 1 folds\<close> and returns a colour for
  every input.\<close>

theorem analyzeFolds_divisor:
  "(1 \<le> nFolds \<and> 1 \<le> nTotal
      \<longrightarrow> 1 \<le> effectiveFolds nFolds nTotal
          \<and> (\<exists>fa. analyzeFolds str nMin nFolds nTotal = Some fa))
   \<and> (1 \<le> nFolds
      \<longrightarrow> effectiveFolds nFolds 0 = 0 \<and> analyzeFolds str nMin nFolds 0 = None)
   \<and> (\<exists>c. getFoldStabilityRGB nMin nFolds = Some c)"
proof (intro conjI impI)
  assume a: "1 \<le> nFolds \<and> 1 \<le> nTotal"
  then show ge: "1 \<le> effectiveFolds nFolds nTotal"
    by (simp add: effectiveFolds_ge_one)
  then have "effectiveFolds nFolds nTotal \<noteq> 0" by simp
  then show "\<exists>fa. analyzeFolds str nMin nFolds nTotal = Some fa"
    by (simp add: analyzeFolds_nonzero Let_def)
next
  assume "1 \<le> nFolds"
  then show z: "effectiveFolds nFolds 0 = 0" by (simp add: effectiveFolds_def)
  then show "analyzeFolds str nMin nFolds 0 = None" by (rule analyzeFolds_zero)
next
  have "max 1 nFolds \<noteq> 0" by simp
  then show "\<exists>c. getFoldStabilityRGB nMin nFolds = Some c"
    by (simp add: getFoldStabilityRGB_def jsdiv_def)
qed

theorem analyzeFolds_divisor_witness:
  "1 \<le> effectiveFolds 5 2000
   \<and> (\<exists>fa. analyzeFolds (\<lambda>x. []) 150 5 2000 = Some fa)
   \<and> effectiveFolds 5 0 = 0 \<and> analyzeFolds (\<lambda>x. []) 150 5 0 = None
   \<and> (\<exists>c. getFoldStabilityRGB 150 0 = Some c)"
  using analyzeFolds_divisor [of 5 2000 "\<lambda>x. []" 150] analyzeFolds_divisor [of 0 0 "\<lambda>x. []" 150]
  by auto

section \<open>Agreement of the two impossible-fold detectors\<close>

lemma includes_label:
  "includes_str (cfgLabel (FOLD_STATUS_CONFIG k)) ''Leave-One-Out'' \<longleftrightarrow> k = LOO"
  by (cases k) simp_all

lemma label_invalid:
  "cfgLabel (FOLD_STATUS_CONFIG k) = ''Statistically Invalid'' \<longleftrightarrow> k = IMPOSSIBLE"
  by (cases k) simp_all

lemma foldAnalysis_forcedNarrative:
  "foldAnalysis (forcedNarrative str sp h st d result) = foldAnalysis result"
  by (simp add: forcedNarrative_def)

lemma foldAnalysis_bandNarrative:
  "foldAnalysis (bandNarrative str p nMin th ra note u result) = foldAnalysis result"
  by (simp add: bandNarrative_def)

lemma foldAnalysis_sparsityNote:
  "foldAnalysis (sparsityNote sp h result) = foldAnalysis result"
  by (simp add: sparsityNote_def)

lemma foldAnalysis_foldTargetStep:
  "foldAnalysis (foldTargetStep str nMin nFolds result) = foldAnalysis result"
  by (simp add: foldTargetStep_def)

lemma foldTargetStep_invalid:
  "foldTarget (foldTargetStep str nMin nFolds result) = ''INVALID CONFIGURATION''
     \<longleftrightarrow> \<not> includes_str (label (foldAnalysis result)) ''Leave-One-Out'' \<and> nFolds > nMin"
  by (simp add: foldTargetStep_def)

lemma spec_foldStatus_LOO:
  "spec_foldStatus nMin nFolds nTotal = LOO
     \<longleftrightarrow> min nFolds nTotal \<ge> nTotal \<or> min nFolds nTotal \<ge> 5000"
proof -
  define e where "e = min nFolds nTotal"
  show ?thesis
    unfolding spec_foldStatus_def Let_def e_def [symmetric] by simp
qed

lemma spec_foldStatus_IMPOSSIBLE:
  "spec_foldStatus nMin nFolds nTotal = IMPOSSIBLE
     \<longleftrightarrow> \<not> (min nFolds nTotal \<ge> nTotal \<or> min nFolds nTotal \<ge> 5000)
          \<and> min nFolds nTotal > nMin"
proof -
  define e where "e = min nFolds nTotal"
  show ?thesis
    unfolding spec_foldStatus_def Let_def e_def [symmetric] by simp
qed

lemma analyzeDataset_foldAnalysis:
  assumes "analyzeFolds str (minority params) (folds params) (total params) = Some fa"
  shows "\<exists>res. analyzeDataset str params = Some res \<and> foldAnalysis res = fa
           \<and> (foldTarget res = ''INVALID CONFIGURATION''
                \<longleftrightarrow> \<not> includes_str (label fa) ''Leave-One-Out''
                     \<and> folds params > minority params)"
  using assms
  by (simp add: analyzeDataset_def Let_def foldAnalysis_foldTargetStep foldTargetStep_invalid
      foldAnalysis_sparsityNote foldAnalysis_forcedNarrative foldAnalysis_bandNarrative)

text \<open>Claim C8. For every minority \<open>\<ge> 0\<close>, folds \<open>\<ge> 1\<close> and total \<open>\<ge> 1\<close> the
  recommendation has the fold target \<open>INVALID CONFIGURATION\<close> exactly when its embedded
  fold analysis carries the label \<open>Statistically Invalid\<close> of the IMPOSSIBLE status: when
  folds exceed total, both code paths take the Leave-One-Out branch first.\<close>

theorem analyzeDataset_invalid_iff_impossible:
  assumes "0 \<le> minority params" and "1 \<le> folds params" and "1 \<le> total params"
  shows "\<exists>res. analyzeDataset str params = Some res
           \<and> (foldTarget res = ''INVALID CONFIGURATION''
                \<longleftrightarrow> label (foldAnalysis res) = ''Statistically Invalid'')
           \<and> (label (foldAnalysis res) = ''Statistically Invalid''
                \<longleftrightarrow> spec_foldStatus (minority params) (folds params) (total params) = IMPOSSIBLE)"
proof -
  define k where "k = spec_foldStatus (minority params) (folds params) (total params)"
  obtain fa where fa: "analyzeFolds str (minority params) (folds params) (total params) = Some fa"
    and lab: "label fa = cfgLabel (FOLD_STATUS_CONFIG k)"
    using analyzeFolds_status_order_aux [OF assms(2,3), of str "minority params"]
    unfolding k_def by blast
  obtain res where res: "analyzeDataset str params = Some res" "foldAnalysis res = fa"
    and tgt: "foldTarget res = ''INVALID CONFIGURATION''
                \<longleftrightarrow> \<not> includes_str (label fa) ''Leave-One-Out''
                     \<and> folds params > minority params"
    using analyzeDataset_foldAnalysis [OF fa] by blast
  have agree: "(k \<noteq> LOO \<and> folds params > minority params) \<longleftrightarrow> k = IMPOSSIBLE"
    unfolding k_def spec_foldStatus_LOO spec_foldStatus_IMPOSSIBLE by auto
  have "foldTarget res = ''INVALID CONFIGURATION'' \<longleftrightarrow> k = IMPOSSIBLE"
    unfolding tgt lab includes_label by (rule agree)
  moreover have "label (foldAnalysis res) = ''Statistically Invalid'' \<longleftrightarrow> k = IMPOSSIBLE"
    unfolding res(2) lab by (rule label_invalid)
  ultimately show ?thesis using res(1) unfolding k_def by blast
qed

theorem analyzeDataset_invalid_iff_impossible_witness:
  "\<exists>res. analyzeDataset (\<lambda>x. [])
            \<lparr>features = 5, minority = 10, total = 2000, folds = 20, sparsity = 0,
             sparsityHomogeneity = 0.5\<rparr> = Some res
         \<and> foldTarget res = ''INVALID CONFIGURATION''
         \<and> label (foldAnalysis res) = ''Statistically Invalid''"
  using analyzeDataset_invalid_iff_impossible
    [of "\<lparr>features = 5, minority = 10, total = 2000, folds = 20, sparsity = 0,
          sparsityHomogeneity = 0.5\<rparr>" "\<lambda>x. []"]
  by (auto simp add: spec_foldStatus_def)

section \<open>Properties of the weight engine\<close>

lemma logistic_pos: "0 < 1 / (1 + exp (x::real))"
  by (simp add: add_pos_pos)

lemma logistic_lt_one: "1 / (1 + exp (x::real)) < 1"
  using divide_less_eq_1_pos [of "1 + exp x" 1] by (simp add: add_pos_pos)

lemma logistic_le:
  assumes "0 < c" and "c \<le> exp (x::real)"
  shows "1 / (1 + exp x) \<le> 1 / (1 + c)"
  using assms by (intro frac_le) simp_all

lemma sigmoid_pos: "0 < sigmoid v t k"
  unfolding sigmoid_def Let_def by (rule logistic_pos)

lemma sigmoid_lt_one: "sigmoid v t k < 1"
  unfolding sigmoid_def Let_def by (rule logistic_lt_one)

lemma sigmoid_le_half:
  assumes "max v 1 \<le> max t 1" and "0 \<le> k"
  shows "sigmoid v t k \<le> 1/2"
proof -
  have "log 10 (max v 1) \<le> log 10 (max t 1)"
    using assms(1) by (intro log_mono) simp_all
  then have "0 \<le> - k * (log 10 (max v 1) - log 10 (max t 1))"
    using assms(2) by (simp add: mult_nonneg_nonpos)
  then have "1 \<le> exp (- k * (log 10 (max v 1) - log 10 (max t 1)))"
    by (simp only: one_le_exp_iff)
  then have "1 / (1 + exp (- k * (log 10 (max v 1) - log 10 (max t 1)))) \<le> 1 / (1 + 1)"
    by (intro logistic_le) simp_all
  then show ?thesis
    unfolding sigmoid_def Let_def by simp
qed

lemma lowDimRegime_nonneg:
  assumes "0 \<le> T" "T \<le> 1" "0 \<le> E" "E \<le> 1" "nonnegWeights w"
  shows "nonnegWeights (lowDimRegime L T E w)"
  using assms by (cases w) (auto simp add: Let_def intro!: add_nonneg_nonneg mult_nonneg_nonneg)

lemma medDimRegime_nonneg:
  assumes "0 \<le> T" "T \<le> 1" "0 \<le> E" "E \<le> 1" "nonnegWeights w"
  shows "nonnegWeights (medDimRegime M T E w)"
  using assms by (cases w) (auto simp add: Let_def intro!: add_nonneg_nonneg mult_nonneg_nonneg)

lemma highDimRegime_nonneg:
  assumes "0 \<le> T" "T \<le> 1" "nonnegWeights w"
  shows "nonnegWeights (highDimRegime H T w)"
  using assms by (cases w) (auto simp add: Let_def intro!: add_nonneg_nonneg mult_nonneg_nonneg)

lemma fallbackBaseline_nonneg:
  "nonnegWeights w \<Longrightarrow> nonnegWeights (fallbackBaseline w)"
  by (cases w) (simp add: Let_def)

lemma fallbackBaseline_mass:
  "nonnegWeights w \<Longrightarrow> 0.001 \<le> weightSum (fallbackBaseline w)"
  by (cases w) (simp add: Let_def)

lemma prePenaltyWeights_nonneg: "nonnegWeights (prePenaltyWeights p nMin nTotal)"
proof -
  define T where "T = 1 - sigmoid nMin (getMinorityThreshold p) 10"
  define E where "E = max (sigmoid (nTotal / max 1 nMin) EFFICIENCY_RATIO 8)
                          (sigmoid nTotal EFFICIENCY_TOTAL 8)"
  have T: "0 \<le> T" "T \<le> 1"
    using sigmoid_pos [of nMin "getMinorityThreshold p" 10]
      sigmoid_lt_one [of nMin "getMinorityThreshold p" 10] by (simp_all add: T_def)
  have E: "0 \<le> E" "E \<le> 1"
    using sigmoid_pos [of "nTotal / max 1 nMin" EFFICIENCY_RATIO 8]
      sigmoid_lt_one [of "nTotal / max 1 nMin" EFFICIENCY_RATIO 8]
      sigmoid_lt_one [of nTotal EFFICIENCY_TOTAL 8] by (simp_all add: E_def)
  have z: "nonnegWeights (0, 0, 0, 0)" by simp
  show ?thesis
    unfolding prePenaltyWeights_def Let_def T_def [symmetric] E_def [symmetric]
    by (intro fallbackBaseline_nonneg highDimRegime_nonneg medDimRegime_nonneg
        lowDimRegime_nonneg T E z)
qed

lemma prePenaltyWeights_mass: "0.001 \<le> weightSum (prePenaltyWeights p nMin nTotal)"
proof -
  define T where "T = 1 - sigmoid nMin (getMinorityThreshold p) 10"
  define E where "E = max (sigmoid (nTotal / max 1 nMin) EFFICIENCY_RATIO 8)
                          (sigmoid nTotal EFFICIENCY_TOTAL 8)"
  have T: "0 \<le> T" "T \<le> 1"
    using sigmoid_pos [of nMin "getMinorityThreshold p" 10]
      sigmoid_lt_one [of nMin "getMinorityThreshold p" 10] by (simp_all add: T_def)
  have E: "0 \<le> E" "E \<le> 1"
    using sigmoid_pos [of "nTotal / max 1 nMin" EFFICIENCY_RATIO 8]
      sigmoid_lt_one [of "nTotal / max 1 nMin" EFFICIENCY_RATIO 8]
      sigmoid_lt_one [of nTotal EFFICIENCY_TOTAL 8] by (simp_all add: E_def)
  have z: "nonnegWeights (0, 0, 0, 0)" by simp
  show ?thesis
    unfolding prePenaltyWeights_def Let_def T_def [symmetric] E_def [symmetric]
    by (intro fallbackBaseline_mass highDimRegime_nonneg medDimRegime_nonneg
        lowDimRegime_nonneg T E z)
qed

lemma applyPenalty_nonneg:
  assumes "penalty \<le> 1" and "nonnegWeights w"
  shows "nonnegWeights (applyPenalty penalty w)"
proof (cases w)
  case (fields wO wU wH wB)
  have a: "0 \<le> wO - wO * penalty" "0 \<le> wH - wH * penalty"
    using assms fields by (simp_all add: mult_left_le)
  show ?thesis
    using assms a fields
    by (auto simp add: Let_def intro!: add_nonneg_nonneg mult_nonneg_nonneg)
qed

lemma applyPenalty_sum:
  "0 \<le> penalty \<Longrightarrow>
     weightSum (applyPenalty penalty (wO, wU, wH, wB))
       = wO + wU + wH + wB - penalty\<^sup>2 * (wO + wH)"
  by (simp add: Let_def power2_eq_square algebra_simps)

lemma applyPenalty_undersample:
  "fst (snd (applyPenalty penalty w)) = fst (snd w)"
  by (cases w) (simp add: Let_def)

lemma calculateWeights_components:
  "(wOversample (calculateWeights p nMin nTotal sp h),
    wUndersample (calculateWeights p nMin nTotal sp h),
    wHybrid (calculateWeights p nMin nTotal sp h),
    wBaseline (calculateWeights p nMin nTotal sp h))
     = applyPenalty (1 - getDistanceStability sp h) (prePenaltyWeights p nMin nTotal)"
  by (simp add: calculateWeights_def Let_def split: prod.splits)

lemma calculateWeights_dominantOriginal:
  "dominantOriginal (calculateWeights p nMin nTotal sp h)
     = Some (dominantStrategy (prePenaltyWeights p nMin nTotal))"
  by (simp add: calculateWeights_def Let_def split: prod.splits)

lemma calculateWeights_stability:
  "stability (calculateWeights p nMin nTotal sp h) = getDistanceStability sp h"
  by (simp add: calculateWeights_def Let_def split: prod.splits)

lemma getDistanceStability_le_one:
  "0 \<le> sp \<Longrightarrow> 0 \<le> h \<Longrightarrow> getDistanceStability sp h \<le> 1"
  by (simp add: getDistanceStability_def Let_def)

lemma getDistanceStability_pos:
  assumes "0 \<le> sp" "sp \<le> 0.99" "0 \<le> h" "h \<le> 1"
  shows "0 < getDistanceStability sp h"
proof (cases "sp < 0.3")
  case True
  then show ?thesis by (simp add: getDistanceStability_def)
next
  case False
  have "sp powr 2.5 < 1 powr 2.5"
    using assms by (intro powr_less_mono2) simp_all
  then have b: "sp powr 2.5 < 1" by simp
  have c: "0.2 + 0.8 * h \<le> 1" "0 \<le> 0.2 + 0.8 * h" using assms by simp_all
  have "sp powr 2.5 * (0.2 + 0.8 * h) \<le> sp powr 2.5 * 1"
    using c by (intro mult_left_mono) simp_all
  then have "sp powr 2.5 * (0.2 + 0.8 * h) < 1" using b by simp
  then show ?thesis using False by (simp add: getDistanceStability_def Let_def)
qed

text \<open>Claim C9. The undersample weight and the pre-penalty dominant strategy do not
  depend on the sparsity inputs: two runs that agree on features, minority and total
  return the same \<open>wUndersample\<close> and the same \<open>dominantOriginal\<close>, whatever the two
  sparsities and homogeneities are. The penalty step leaves the undersample weight alone.\<close>

theorem calculateWeights_undersample_independent:
  "wUndersample (calculateWeights p nMin nTotal sp1 h1)
     = wUndersample (calculateWeights p nMin nTotal sp2 h2)
   \<and> dominantOriginal (calculateWeights p nMin nTotal sp1 h1)
     = dominantOriginal (calculateWeights p nMin nTotal sp2 h2)"
proof -
  have u: "wUndersample (calculateWeights p nMin nTotal sp h)
             = fst (snd (prePenaltyWeights p nMin nTotal))" for sp h
    using arg_cong [OF calculateWeights_components [of p nMin nTotal sp h],
        of "\<lambda>w. fst (snd w)"]
    by (simp add: applyPenalty_undersample)
  show ?thesis
    by (simp add: u calculateWeights_dominantOriginal)
qed

lemma calculateWeights_nonneg_aux:
  assumes "0 < p" and "0 < nMin" and "nMin \<le> nTotal"
    and "0 \<le> sp" and "sp \<le> 0.99" and "0 \<le> h" and "h \<le> 1"
  shows "0 \<le> wOversample (calculateWeights p nMin nTotal sp h)
       \<and> 0 \<le> wUndersample (calculateWeights p nMin nTotal sp h)
       \<and> 0 \<le> wHybrid (calculateWeights p nMin nTotal sp h)
       \<and> 0 \<le> wBaseline (calculateWeights p nMin nTotal sp h)
       \<and> 0 < wOversample (calculateWeights p nMin nTotal sp h)
             + wUndersample (calculateWeights p nMin nTotal sp h)
             + wHybrid (calculateWeights p nMin nTotal sp h)
             + wBaseline (calculateWeights p nMin nTotal sp h)"
proof -
  define pen where "pen = 1 - getDistanceStability sp h"
  obtain wO wU wH wB where pre: "prePenaltyWeights p nMin nTotal = (wO, wU, wH, wB)"
    by (cases "prePenaltyWeights p nMin nTotal") blast
  have nn: "nonnegWeights (wO, wU, wH, wB)"
    using prePenaltyWeights_nonneg [of p nMin nTotal] by (simp only: pre)
  have mass: "0.001 \<le> wO + wU + wH + wB"
    using prePenaltyWeights_mass [of p nMin nTotal] by (simp add: pre)
  have pen: "0 \<le> pen" "pen < 1"
    using getDistanceStability_le_one [OF assms(4,6)] getDistanceStability_pos [OF assms(4-7)]
    by (simp_all add: pen_def)
  have comp: "(wOversample (calculateWeights p nMin nTotal sp h),
               wUndersample (calculateWeights p nMin nTotal sp h),
               wHybrid (calculateWeights p nMin nTotal sp h),
               wBaseline (calculateWeights p nMin nTotal sp h))
                = applyPenalty pen (wO, wU, wH, wB)"
    by (simp only: calculateWeights_components pen_def pre)
  have after: "nonnegWeights (applyPenalty pen (wO, wU, wH, wB))"
    using pen nn by (intro applyPenalty_nonneg) simp_all
  have sq: "pen\<^sup>2 < 1" using pen by (simp add: power_less_one_iff abs_square_less_1)
  have "pen\<^sup>2 * (wO + wH) \<le> pen\<^sup>2 * (wO + wU + wH + wB)"
    using nn by (intro mult_left_mono) simp_all
  moreover have "pen\<^sup>2 * (wO + wU + wH + wB) < 1 * (wO + wU + wH + wB)"
    using sq mass by (intro mult_strict_right_mono) simp_all
  ultimately have "0 < wO + wU + wH + wB - pen\<^sup>2 * (wO + wH)" by simp
  then have total: "0 < weightSum (applyPenalty pen (wO, wU, wH, wB))"
    using applyPenalty_sum [OF pen(1), of wO wU wH wB] by simp
  show ?thesis
    using after total unfolding comp [symmetric] by simp
qed

text \<open>Claim C7. For every input in the documented ranges (features \<open>> 0\<close>, minority
  \<open>> 0\<close>, total \<open>\<ge>\<close> minority, sparsity in \<open>[0, 0.99]\<close>, homogeneity in \<open>[0, 1]\<close>) the four
  weights that \<open>calculateWeights\<close> returns are non-negative and their sum is strictly
  positive; the fallback keeps the mass before the penalty step at 0.001 or more.\<close>

theorem calculateWeights_nonneg_positive_sum:
  assumes "0 < p" and "0 < nMin" and "nMin \<le> nTotal"
    and "0 \<le> sp" and "sp \<le> 0.99" and "0 \<le> h" and "h \<le> 1"
  shows "0 \<le> wOversample (calculateWeights p nMin nTotal sp h)
       \<and> 0 \<le> wUndersample (calculateWeights p nMin nTotal sp h)
       \<and> 0 \<le> wHybrid (calculateWeights p nMin nTotal sp h)
       \<and> 0 \<le> wBaseline (calculateWeights p nMin nTotal sp h)
       \<and> 0 < wOversample (calculateWeights p nMin nTotal sp h)
             + wUndersample (calculateWeights p nMin nTotal sp h)
             + wHybrid (calculateWeights p nMin nTotal sp h)
             + wBaseline (calculateWeights p nMin nTotal sp h)
       \<and> 0.001 \<le> weightSum (prePenaltyWeights p nMin nTotal)"
proof -
  have mass: "0.001 \<le> weightSum (prePenaltyWeights p nMin nTotal)"
    by (rule prePenaltyWeights_mass)
  have "0 \<le> getDistanceStability sp h"
    using getDistanceStability_pos [OF assms(4-7)] by simp
  then have "1 - getDistanceStability sp h \<le> 1" by simp
  then have nn: "nonnegWeights
      (applyPenalty (1 - getDistanceStability sp h) (prePenaltyWeights p nMin nTotal))"
    using prePenaltyWeights_nonneg by (rule applyPenalty_nonneg)
  have pos: "0 < wOversample (calculateWeights p nMin nTotal sp h)
             + wUndersample (calculateWeights p nMin nTotal sp h)
             + wHybrid (calculateWeights p nMin nTotal sp h)
             + wBaseline (calculateWeights p nMin nTotal sp h)"
    using calculateWeights_nonneg_aux [OF assms] by simp
  show ?thesis
    using nn pos mass unfolding calculateWeights_components [symmetric] by simp
qed

theorem calculateWeights_nonneg_positive_sum_witness:
  "0 \<le> wOversample (calculateWeights 5 50 2000 0.8 0.8)
   \<and> 0 \<le> wUndersample (calculateWeights 5 50 2000 0.8 0.8)
   \<and> 0 \<le> wHybrid (calculateWeights 5 50 2000 0.8 0.8)
   \<and> 0 \<le> wBaseline (calculateWeights 5 50 2000 0.8 0.8)
   \<and> 0 < wOversample (calculateWeights 5 50 2000 0.8 0.8)
         + wUndersample (calculateWeights 5 50 2000 0.8 0.8)
         + wHybrid (calculateWeights 5 50 2000 0.8 0.8)
         + wBaseline (calculateWeights 5 50 2000 0.8 0.8)"
  using calculateWeights_nonneg_positive_sum [of 5 50 2000 "0.8" "0.8"]
  by simp

section \<open>The weights at 5 features and 50 minority samples\<close>

lemma log10_le:
  assumes "0 < x" and "x ^ n \<le> 10 ^ m" and "0 < n"
  shows "log 10 x \<le> real m / real n"
proof -
  have "real n * log 10 x = log 10 (x ^ n)"
    using assms(1) by (simp add: log_nat_power)
  also have "\<dots> \<le> log 10 (10 ^ m)"
    using assms(1,2) by (intro log_mono) simp_all
  also have "\<dots> = real m" by simp
  finally show ?thesis using assms(3) by (simp add: field_simps)
qed

lemma log10_ge:
  assumes "0 < x" and "10 ^ m \<le> x ^ n" and "0 < n"
  shows "real m / real n \<le> log 10 x"
proof -
  have "real m = log 10 (10 ^ m)" by simp
  also have "\<dots> \<le> log 10 (x ^ n)"
    using assms(2) by (intro log_mono) simp_all
  also have "\<dots> = real n * log 10 x"
    using assms(1) by (simp add: log_nat_power)
  finally show ?thesis using assms(3) by (simp add: field_simps)
qed

lemma exp_6_ge: "125 \<le> exp (6::real)"
proof -
  have "5 \<le> exp (2::real)"
    using exp_lower_Taylor_quadratic [of "2::real"] by simp
  then have "5 ^ 3 \<le> exp (2::real) ^ 3"
    by (intro power_mono) simp_all
  moreover have "exp (2::real) ^ 3 = exp 6"
    using exp_of_nat_mult [of 3 "2::real"] by simp
  ultimately show ?thesis by simp
qed

lemma sigmoid_small:
  assumes gap: "6 \<le> k * (log 10 (max t 1) - log 10 (max v 1))"
  shows "sigmoid v t k \<le> 1/126"
proof -
  have "exp 6 \<le> exp (- k * (log 10 (max v 1) - log 10 (max t 1)))"
    using gap by (simp add: algebra_simps)
  then have "125 \<le> exp (- k * (log 10 (max v 1) - log 10 (max t 1)))"
    using exp_6_ge by linarith
  then have "1 / (1 + exp (- k * (log 10 (max v 1) - log 10 (max t 1)))) \<le> 1 / (1 + 125)"
    by (intro logistic_le) simp_all
  then show ?thesis
    unfolding sigmoid_def Let_def by simp
qed

lemma log10_5: "log 10 5 \<le> 7/10"
  using log10_le [of 5 10 7] by simp

lemma log10_20: "13/10 \<le> log 10 20"
  using log10_ge [of 20 13 10] by simp

lemma log10_50: "log 10 50 \<le> 17/10"
  using log10_le [of 50 10 17] by simp

lemma log10_200: "23/10 \<le> log 10 200"
  using log10_ge [of 200 23 10] by simp

lemma sigmoid_5_low: "sigmoid 5 DIM_LOW 12 \<le> 1/126"
  using log10_5 log10_20 by (intro sigmoid_small) (simp add: DIM_LOW_def)

lemma sigmoid_5_high: "sigmoid 5 DIM_HIGH 12 \<le> 1/126"
proof -
  have "2 \<le> log 10 100"
    using log10_ge [of 100 2 1] by simp
  then show ?thesis
    using log10_5 by (intro sigmoid_small) (simp add: DIM_HIGH_def)
qed

lemma sigmoid_50_threshold: "sigmoid 50 (getMinorityThreshold 5) 10 \<le> 1/126"
  using log10_50 log10_200
  by (intro sigmoid_small) (simp add: getMinorityThreshold_def DIM_LOW_def MIN_SAMPLES_BASE_def)

text \<open>The shape of the weights before the penalty for 5 features and 50 minority samples:
  only the low-dimensionality regime is active.\<close>

lemma prePenaltyWeights_5_50:
  "\<exists>L T E. 125/126 \<le> L \<and> L < 1 \<and> 125/126 \<le> T \<and> T < 1 \<and> 0 < E \<and> E < 1
      \<and> prePenaltyWeights 5 50 nTotal = (L * T, L * (1 - T) * E, 0, L * (1 - T) * (1 - E))"
proof -
  define L where "L = 1 - sigmoid 5 DIM_LOW 12"
  define H where "H = sigmoid 5 DIM_HIGH 12"
  define T where "T = 1 - sigmoid 50 (getMinorityThreshold 5) 10"
  define E where "E = max (sigmoid (nTotal / max 1 50) EFFICIENCY_RATIO 8)
                          (sigmoid nTotal EFFICIENCY_TOTAL 8)"
  have L: "125/126 \<le> L" "L < 1"
    using sigmoid_5_low sigmoid_pos [of 5 DIM_LOW 12] by (simp_all add: L_def)
  have H: "0 < H" "H \<le> 1/126"
    using sigmoid_5_high sigmoid_pos [of 5 DIM_HIGH 12] by (simp_all add: H_def)
  have T: "125/126 \<le> T" "T < 1"
    using sigmoid_50_threshold sigmoid_pos [of 50 "getMinorityThreshold 5" 10]
    by (simp_all add: T_def)
  have E: "0 < E" "E < 1"
    using sigmoid_pos [of "nTotal / max 1 50" EFFICIENCY_RATIO 8]
      sigmoid_lt_one [of "nTotal / max 1 50" EFFICIENCY_RATIO 8]
      sigmoid_lt_one [of nTotal EFFICIENCY_TOTAL 8]
    by (simp_all add: E_def less_max_iff_disj)
  have low: "L > 0.01" using L by simp
  have med: "\<not> 1 - L - H > 0.01" using L H by simp
  have high: "\<not> H > 0.01" using H by simp
  have total: "L * T + L * (1 - T) * E + L * (1 - T) * (1 - E) = L"
    by (simp add: algebra_simps)
  have nofall: "\<not> L * T + L * (1 - T) * E + 0 + L * (1 - T) * (1 - E) < 0.001"
    using L total by simp
  have "prePenaltyWeights 5 50 nTotal = (L * T, L * (1 - T) * E, 0, L * (1 - T) * (1 - E))"
    unfolding prePenaltyWeights_def Let_def L_def [symmetric] H_def [symmetric]
      T_def [symmetric] E_def [symmetric]
    using low med high nofall by (simp add: Let_def)
  then show ?thesis using L T E by blast
qed

lemma getDistanceStability_08:
  "\<exists>pen. 0 < pen \<and> pen \<le> 0.5376 \<and> getDistanceStability 0.8 0.8 = 1 - pen"
proof -
  define base where "base = (0.8::real) powr 2.5"
  have pos: "0 < base" by (simp add: base_def)
  have "(0.8::real) powr 2.5 \<le> 0.8 powr 2"
    by (intro powr_mono') simp_all
  then have le: "base \<le> 0.64" by (simp add: base_def power2_eq_square)
  have risk: "0 < base * 0.84" "base * 0.84 \<le> 0.5376" using pos le by simp_all
  have "getDistanceStability 0.8 0.8 = max 0 (1 - (0.8 powr 2.5) * (0.2 + 0.8 * 0.8))"
    by (simp add: getDistanceStability_def Let_def)
  also have "\<dots> = max 0 (1 - base * 0.84)"
    by (simp add: base_def)
  also have "\<dots> = 1 - base * 0.84"
    using risk by simp
  finally show ?thesis using risk by blast
qed

text \<open>Claim C1 fails on the code. The penalty step does reduce the oversample and the
  hybrid weight by the fraction \<open>penalty = 1 - stability\<close> of their values, but the amounts
  it adds to the baseline are computed from the weights after their reduction, so the
  baseline gains less than was removed and the total mass shrinks. Evaluated at features 5,
  minority 50, total 2000 and both sparsity inputs 0.8.\<close>

theorem penalty_step_loses_mass:
  "case prePenaltyWeights 5 50 2000 of
     (wO, wU, wH, wB) \<Rightarrow>
       (let W = calculateWeights 5 50 2000 0.8 0.8;
            penalty = 1 - stability W
        in 0 < penalty
           \<and> wOversample W = wO - penalty * wO
           \<and> wHybrid W = wH - penalty * wH
           \<and> wBaseline W < wB + penalty * (wO + wH)
           \<and> wOversample W + wUndersample W + wHybrid W + wBaseline W < wO + wU + wH + wB)"
proof -
  obtain L T E where L: "125/126 \<le> L" "L < 1" and T: "125/126 \<le> T" "T < 1"
    and E: "0 < E" "E < 1"
    and pre: "prePenaltyWeights 5 50 2000 = (L * T, L * (1 - T) * E, 0, L * (1 - T) * (1 - E))"
    using prePenaltyWeights_5_50 [of 2000] by blast
  obtain pen where pen: "0 < pen" "pen \<le> 0.5376"
    and stab: "getDistanceStability 0.8 0.8 = 1 - pen"
    using getDistanceStability_08 by blast
  have wO: "0 < L * T" using L T by simp
  have sq: "0 < pen * pen * (L * T)" using pen wO by simp
  define W where "W = calculateWeights 5 50 2000 0.8 0.8"
  have "(wOversample W, wUndersample W, wHybrid W, wBaseline W)
     = (L * T - L * T * pen, L * (1 - T) * E, 0,
        L * (1 - T) * (1 - E) + (L * T - L * T * pen) * pen)"
    unfolding W_def calculateWeights_components stab pre using pen by (simp add: Let_def)
  then have o: "wOversample W = L * T - L * T * pen"
    and u: "wUndersample W = L * (1 - T) * E"
    and hy: "wHybrid W = 0"
    and ba: "wBaseline W = L * (1 - T) * (1 - E) + (L * T - L * T * pen) * pen"
    by simp_all
  have st: "stability W = 1 - pen"
    unfolding W_def calculateWeights_stability stab by simp
  have c1: "wOversample W = L * T - pen * (L * T)"
    by (simp add: o)
  have c2: "wHybrid W = 0 - pen * 0"
    by (simp add: hy)
  have c3: "wBaseline W < L * (1 - T) * (1 - E) + pen * (L * T + 0)"
    using sq by (simp add: ba algebra_simps)
  have c4: "wOversample W + wUndersample W + wHybrid W + wBaseline W
              < L * T + L * (1 - T) * E + 0 + L * (1 - T) * (1 - E)"
    using sq by (simp add: o u hy ba algebra_simps)
  show ?thesis
    unfolding pre W_def [symmetric]
    using pen(1) c1 c2 c3 c4 by (simp add: Let_def st)
qed

section \<open>Properties of the colour blender\<close>

lemma STRATEGY_RGB_values:
  "STRATEGY_RGB OVERSAMPLE = \<lparr>r = 239, g = 68, b = 68\<rparr>"
  "STRATEGY_RGB UNDERSAMPLE = \<lparr>r = 59, g = 130, b = 246\<rparr>"
  "STRATEGY_RGB HYBRID = \<lparr>r = 168, g = 85, b = 247\<rparr>"
  "STRATEGY_RGB BASELINE = \<lparr>r = 16, g = 185, b = 129\<rparr>"
  by (simp_all add: STRATEGY_RGB_def hexToRgb_def slice_def hexDigit_def)

lemma accumulate_nonneg_weight:
  assumes "0 \<le> w"
  shows "accumulate S w ty acc =
           \<lparr>r = r acc + r (STRATEGY_RGB ty) * (w / S),
            g = g acc + g (STRATEGY_RGB ty) * (w / S),
            b = b acc + b (STRATEGY_RGB ty) * (w / S)\<rparr>"
proof (cases "w > 0")
  case True
  then show ?thesis by (simp add: accumulate_def Let_def)
next
  case False
  then have "w = 0" using assms by simp
  then show ?thesis by (simp add: accumulate_def)
qed

text \<open>The blend as a convex combination of the four anchors.\<close>

lemma getSmoothStrategyRGB_convex:
  assumes "0 < p" and "0 < nMin" and "nMin \<le> nTotal"
    and "0 \<le> sp" and "sp \<le> 0.99" and "0 \<le> h" and "h \<le> 1"
  shows "\<exists>x1 x2 x3 x4. 0 \<le> x1 \<and> 0 \<le> x2 \<and> 0 \<le> x3 \<and> 0 \<le> x4 \<and> x1 + x2 + x3 + x4 = 1
           \<and> getSmoothStrategyRGB p nMin nTotal sp h =
                \<lparr>r = 239 * x1 + 59 * x2 + 168 * x3 + 16 * x4,
                 g = 68 * x1 + 130 * x2 + 85 * x3 + 185 * x4,
                 b = 68 * x1 + 246 * x2 + 247 * x3 + 129 * x4\<rparr>"
proof -
  define W where "W = calculateWeights p nMin nTotal sp h"
  define S where "S = wOversample W + wUndersample W + wHybrid W + wBaseline W"
  have nn: "0 \<le> wOversample W" "0 \<le> wUndersample W" "0 \<le> wHybrid W" "0 \<le> wBaseline W"
    and S: "0 < S"
    using calculateWeights_nonneg_aux [OF assms] by (simp_all add: W_def S_def)
  have sum1: "wOversample W / S + wUndersample W / S + wHybrid W / S + wBaseline W / S = 1"
    using S by (simp add: S_def add_divide_distrib [symmetric])
  have "getSmoothStrategyRGB p nMin nTotal sp h =
          \<lparr>r = 239 * (wOversample W / S) + 59 * (wUndersample W / S)
                 + 168 * (wHybrid W / S) + 16 * (wBaseline W / S),
           g = 68 * (wOversample W / S) + 130 * (wUndersample W / S)
                 + 85 * (wHybrid W / S) + 185 * (wBaseline W / S),
           b = 68 * (wOversample W / S) + 246 * (wUndersample W / S)
                 + 247 * (wHybrid W / S) + 129 * (wBaseline W / S)\<rparr>"
    unfolding getSmoothStrategyRGB_def Let_def W_def [symmetric] S_def [symmetric]
    using S nn by (simp add: accumulate_nonneg_weight STRATEGY_RGB_values)
  moreover have "0 \<le> wOversample W / S" "0 \<le> wUndersample W / S"
    "0 \<le> wHybrid W / S" "0 \<le> wBaseline W / S"
    using nn S by simp_all
  ultimately show ?thesis using sum1 by blast
qed

text \<open>Claim C3, as amended. For every input in the documented ranges each of the three
  components that \<open>getSmoothStrategyRGB\<close> returns is a real number between 0 and 255; the
  function does not round, so a component need not be an integer.\<close>

theorem getSmoothStrategyRGB_range:
  assumes "0 < p" and "0 < nMin" and "nMin \<le> nTotal"
    and "0 \<le> sp" and "sp \<le> 0.99" and "0 \<le> h" and "h \<le> 1"
  shows "0 \<le> r (getSmoothStrategyRGB p nMin nTotal sp h)
       \<and> r (getSmoothStrategyRGB p nMin nTotal sp h) \<le> 255
       \<and> 0 \<le> g (getSmoothStrategyRGB p nMin nTotal sp h)
       \<and> g (getSmoothStrategyRGB p nMin nTotal sp h) \<le> 255
       \<and> 0 \<le> b (getSmoothStrategyRGB p nMin nTotal sp h)
       \<and> b (getSmoothStrategyRGB p nMin nTotal sp h) \<le> 255"
proof -
  obtain x1 x2 x3 x4 :: real where x: "0 \<le> x1" "0 \<le> x2" "0 \<le> x3" "0 \<le> x4"
    "x1 + x2 + x3 + x4 = 1"
    and c: "getSmoothStrategyRGB p nMin nTotal sp h =
                \<lparr>r = 239 * x1 + 59 * x2 + 168 * x3 + 16 * x4,
                 g = 68 * x1 + 130 * x2 + 85 * x3 + 185 * x4,
                 b = 68 * x1 + 246 * x2 + 247 * x3 + 129 * x4\<rparr>"
    using getSmoothStrategyRGB_convex [OF assms] by blast
  show ?thesis unfolding c using x by simp
qed

theorem getSmoothStrategyRGB_range_witness:
  "0 \<le> r (getSmoothStrategyRGB 5 50 2000 0 0.5)
   \<and> r (getSmoothStrategyRGB 5 50 2000 0 0.5) \<le> 255
   \<and> 0 \<le> g (getSmoothStrategyRGB 5 50 2000 0 0.5)
   \<and> g (getSmoothStrategyRGB 5 50 2000 0 0.5) \<le> 255
   \<and> 0 \<le> b (getSmoothStrategyRGB 5 50 2000 0 0.5)
   \<and> b (getSmoothStrategyRGB 5 50 2000 0 0.5) \<le> 255"
  using getSmoothStrategyRGB_range [of 5 50 2000 0 "0.5"] by simp

lemma strictly_between_not_int:
  assumes "of_int n < (x::real)" and "x < of_int n + 1"
  shows "x \<notin> \<int>"
proof
  assume "x \<in> \<int>"
  then obtain m where m: "x = of_int m" by (rule Ints_cases)
  then have "n < m" "m < n + 1" using assms by simp_all
  then show False by simp
qed

text \<open>Claim C3 as stated fails: at features 5, minority 50, total 2000, sparsity 0 and
  homogeneity 0.5 the green component lies strictly between 68 and 69.\<close>

theorem getSmoothStrategyRGB_not_integer:
  "g (getSmoothStrategyRGB 5 50 2000 0 0.5) \<notin> \<int>"
proof -
  obtain L T E where L: "125/126 \<le> L" "L < 1" and T: "125/126 \<le> T" "T < 1"
    and E: "0 < E" "E < 1"
    and pre: "prePenaltyWeights 5 50 2000 = (L * T, L * (1 - T) * E, 0, L * (1 - T) * (1 - E))"
    using prePenaltyWeights_5_50 [of 2000] by blast
  define W where "W = calculateWeights 5 50 2000 0 0.5"
  have stab: "getDistanceStability 0 0.5 = 1"
    by (simp add: getDistanceStability_def)
  have "(wOversample W, wUndersample W, wHybrid W, wBaseline W)
     = (L * T, L * (1 - T) * E, 0, L * (1 - T) * (1 - E))"
    unfolding W_def calculateWeights_components stab pre by simp
  then have o: "wOversample W = L * T"
    and u: "wUndersample W = L * (1 - T) * E"
    and hy: "wHybrid W = 0"
    and ba: "wBaseline W = L * (1 - T) * (1 - E)"
    by simp_all
  have Lpos: "0 < L" using L by simp
  have S: "L * T + L * (1 - T) * E + 0 + L * (1 - T) * (1 - E) = L"
    by (simp add: algebra_simps)
  have nn: "0 \<le> L * T" "0 \<le> L * (1 - T) * E" "0 \<le> L * (1 - T) * (1 - E)"
    using L T E by simp_all
  have gval: "g (getSmoothStrategyRGB 5 50 2000 0 0.5)
                = 68 * T + 130 * ((1 - T) * E) + 185 * ((1 - T) * (1 - E))"
    unfolding getSmoothStrategyRGB_def Let_def W_def [symmetric] o u hy ba S
    using Lpos nn by (simp add: accumulate_nonneg_weight STRATEGY_RGB_values)
  define d where "d = 1 - T"
  have d: "0 < d" "d \<le> 1/126" using T by (simp_all add: d_def)
  have dE: "0 < d * E" "d * E < d" using d E by simp_all
  have gform: "68 * T + 130 * ((1 - T) * E) + 185 * ((1 - T) * (1 - E))
                 = 68 + 117 * d - 55 * (d * E)"
    by (simp add: d_def algebra_simps)
  have lo: "68 < 68 + 117 * d - 55 * (d * E)"
    using d dE by linarith
  have hi: "68 + 117 * d - 55 * (d * E) < 69"
    using d dE by linarith
  have "68 + 117 * d - 55 * (d * E) \<notin> \<int>"
    using strictly_between_not_int [of 68 "68 + 117 * d - 55 * (d * E)"] lo hi by simp
  then show ?thesis unfolding gval gform .
qed

section \<open>The forced-to-baseline path\<close>

lemma strategy_bandNarrative:
  "strategy (bandNarrative str p nMin th ra note u result) = strategy result"
  by (simp add: bandNarrative_def)

lemma sparsityWarning_bandNarrative:
  "sparsityWarning (bandNarrative str p nMin th ra note u result) = sparsityWarning result"
  by (simp add: bandNarrative_def)

lemma strategy_sparsityNote:
  "strategy (sparsityNote sp h result) = strategy result"
  by (simp add: sparsityNote_def)

lemma strategy_foldTargetStep:
  "strategy (foldTargetStep str nMin nFolds result) = strategy result"
  by (simp add: foldTargetStep_def)

lemma sparsityWarning_foldTargetStep:
  "sparsityWarning (foldTargetStep str nMin nFolds result) = sparsityWarning result"
  by (simp add: foldTargetStep_def)

lemma max4_first:
  fixes x :: real
  assumes "y \<le> x" and "0 \<le> x" and "z \<le> x"
  shows "max (max (max x y) 0) z = x"
  using assms by simp

text \<open>With 5 features, 50 minority samples and both sparsity inputs at 0.8, the
  oversample weight leads before the penalty and still leads after it.\<close>

lemma weights_5_50_08:
  "dominantOriginal (calculateWeights 5 50 nTotal 0.8 0.8) = Some OVERSAMPLE
   \<and> selectStrategy (calculateWeights 5 50 nTotal 0.8 0.8) = OVERSAMPLE"
proof -
  obtain L T E where L: "125/126 \<le> L" "L < 1" and T: "125/126 \<le> T" "T < 1"
    and E: "0 < E" "E < 1"
    and pre: "prePenaltyWeights 5 50 nTotal = (L * T, L * (1 - T) * E, 0, L * (1 - T) * (1 - E))"
    using prePenaltyWeights_5_50 [of nTotal] by blast
  obtain pen where pen: "0 < pen" "pen \<le> 0.5376"
    and stab: "getDistanceStability 0.8 0.8 = 1 - pen"
    using getDistanceStability_08 by blast
  define W where "W = calculateWeights 5 50 nTotal 0.8 0.8"
  define a where "a = 1 - pen"
  define d where "d = 1 - T"
  have a: "289/625 \<le> a" "a < 1" using pen by (simp_all add: a_def)
  have d: "0 < d" "d \<le> 1/126" using T by (simp_all add: d_def)
  have Lpos: "0 < L" using L by simp
  have dE: "0 < d * E" "d * E < d" using d E by simp_all
  have dE': "0 < d * (1 - E)" "d * (1 - E) < d" using d E by simp_all
  have Ta: "9/20 \<le> T * a"
  proof -
    have "(125/126) * (289/625) \<le> T * a"
      using T a by (intro mult_mono) simp_all
    then show ?thesis by simp
  qed
  have Taa: "1/5 \<le> T * a * a"
  proof -
    have "(9/20) * (289/625) \<le> (T * a) * a"
      using Ta a by (intro mult_mono) simp_all
    then show ?thesis by simp
  qed
  have "(wOversample W, wUndersample W, wHybrid W, wBaseline W)
     = (L * T - L * T * pen, L * (1 - T) * E, 0,
        L * (1 - T) * (1 - E) + (L * T - L * T * pen) * pen)"
    unfolding W_def calculateWeights_components stab pre using pen by (simp add: Let_def)
  then have o: "wOversample W = L * (T * a)"
    and u: "wUndersample W = L * (d * E)"
    and hy: "wHybrid W = 0"
    and ba: "wBaseline W = L * (d * (1 - E) + (T * a - T * a * a))"
    by (simp_all add: a_def d_def algebra_simps)
  have o_gt_b: "wBaseline W < wOversample W"
  proof -
    have "d * (1 - E) + (T * a - T * a * a) < T * a"
      using dE' d Taa by linarith
    then show ?thesis unfolding o ba using Lpos by simp
  qed
  have o_pos: "0 < wOversample W"
  proof -
    have "(0::real) < 9/20" by simp
    then have "0 < T * a" using Ta by (rule less_le_trans)
    then show ?thesis unfolding o by (rule mult_pos_pos [OF Lpos])
  qed
  have u_le_o: "wUndersample W \<le> wOversample W"
  proof -
    have "d * E \<le> T * a" using dE d Ta by linarith
    then show ?thesis unfolding o u using Lpos by simp
  qed
  have sel: "selectStrategy W = OVERSAMPLE"
    using o_gt_b o_pos u_le_o by (simp add: selectStrategy_def Let_def hy)
  have T_big: "d * E \<le> T" "d * (1 - E) \<le> T" "0 \<le> T"
    using dE dE' d T by linarith+
  have mx: "max (max (max (L * T) (L * (1 - T) * E)) 0) (L * (1 - T) * (1 - E)) = L * T"
  proof (rule max4_first)
    show "L * (1 - T) * E \<le> L * T"
      unfolding d_def [symmetric] mult.assoc using T_big(1) Lpos by (intro mult_left_mono) simp_all
    show "0 \<le> L * T"
      using T_big(3) Lpos by (intro mult_nonneg_nonneg) simp_all
    show "L * (1 - T) * (1 - E) \<le> L * T"
      unfolding d_def [symmetric] mult.assoc using T_big(2) Lpos by (intro mult_left_mono) simp_all
  qed
  have dom: "dominantStrategy (prePenaltyWeights 5 50 nTotal) = OVERSAMPLE"
    unfolding pre by (simp only: dominantStrategy.simps Let_def mx) simp
  show ?thesis
    using sel dom by (simp add: W_def calculateWeights_dominantOriginal)
qed

lemma analyzeDataset_oversample:
  assumes "analyzeFolds str (minority P) (folds P) (total P) = Some fa"
    and "selectStrategy (calculateWeights (features P) (minority P) (total P) (sparsity P)
           (sparsityHomogeneity P)) = OVERSAMPLE"
    and "sparsity P > SPARSITY_CRITICAL" and "\<not> sparsityHomogeneity P < 0.4"
  shows "\<exists>res. analyzeDataset str P = Some res
          \<and> strategy res = OVERSAMPLE
          \<and> sparsityWarning res
               = Some ''Caution: High sparsity reduces distance metric reliability.''"
  using assms
  by (simp add: analyzeDataset_def Let_def wasForcedToBaseline_def
      strategy_foldTargetStep sparsityWarning_foldTargetStep strategy_sparsityNote
      strategy_bandNarrative sparsityNote_def sparsityWarning_bandNarrative)

lemma analyzeDataset_5_50_08:
  assumes "50 \<le> nTotal" and "1 \<le> nFolds"
  shows "\<exists>res. analyzeDataset str
            \<lparr>features = 5, minority = 50, total = nTotal, folds = nFolds, sparsity = 0.8,
             sparsityHomogeneity = 0.8\<rparr> = Some res
          \<and> strategy res = OVERSAMPLE
          \<and> sparsityWarning res
               = Some ''Caution: High sparsity reduces distance metric reliability.''"
proof -
  have "1 \<le> nTotal" using assms(1) by simp
  then obtain fa where fa: "analyzeFolds str 50 nFolds nTotal = Some fa"
    using analyzeFolds_status_order_aux [OF assms(2), of nTotal str 50] by blast
  have sel: "selectStrategy (calculateWeights 5 50 nTotal 0.8 0.8) = OVERSAMPLE"
    using weights_5_50_08 [of nTotal] by simp
  show ?thesis
    using fa sel by (intro analyzeDataset_oversample) (simp_all add: SPARSITY_CRITICAL_def)
qed

text \<open>Claim C2, as amended. With features 5, minority 50 and both sparsity inputs 0.8, for
  every total \<open>\<ge>\<close> minority and folds \<open>\<ge> 1\<close>: the pre-penalty dominant strategy is
  Oversample, the final strategy is Oversample as well (the penalty is below one half), so
  the forced-to-baseline path is not taken; the recommendation still carries a sparsity
  warning, the general one for a sparsity above 0.6.\<close>

theorem oversample_survives_penalty:
  assumes "50 \<le> nTotal" and "1 \<le> nFolds"
  shows "\<exists>res. analyzeDataset str
            \<lparr>features = 5, minority = 50, total = nTotal, folds = nFolds, sparsity = 0.8,
             sparsityHomogeneity = 0.8\<rparr> = Some res
          \<and> dominantOriginal (calculateWeights 5 50 nTotal 0.8 0.8) = Some OVERSAMPLE
          \<and> strategy res = OVERSAMPLE
          \<and> \<not> wasForcedToBaseline (strategy res)
                (dominantOriginal (calculateWeights 5 50 nTotal 0.8 0.8))
          \<and> sparsityWarning res
               = Some ''Caution: High sparsity reduces distance metric reliability.''"
  using analyzeDataset_5_50_08 [OF assms, of str] weights_5_50_08 [of nTotal]
  by (auto simp add: wasForcedToBaseline_def)

theorem oversample_survives_penalty_witness:
  "\<exists>res. analyzeDataset (\<lambda>x. [])
            \<lparr>features = 5, minority = 50, total = 2000, folds = 5, sparsity = 0.8,
             sparsityHomogeneity = 0.8\<rparr> = Some res
          \<and> dominantOriginal (calculateWeights 5 50 2000 0.8 0.8) = Some OVERSAMPLE
          \<and> strategy res = OVERSAMPLE
          \<and> sparsityWarning res
               = Some ''Caution: High sparsity reduces distance metric reliability.''"
  using oversample_survives_penalty [of 2000 5 "\<lambda>x. []"] by auto

text \<open>Claim C2 as stated fails: no total \<open>\<ge>\<close> minority and folds \<open>\<ge> 1\<close> lead to the
  forced-to-baseline path at these inputs.\<close>

theorem forced_baseline_never_taken:
  "\<not> (\<exists>str nTotal nFolds res.
         50 \<le> nTotal \<and> 1 \<le> nFolds
       \<and> analyzeDataset str
            \<lparr>features = 5, minority = 50, total = nTotal, folds = nFolds, sparsity = 0.8,
             sparsityHomogeneity = 0.8\<rparr> = Some res
       \<and> dominantOriginal (calculateWeights 5 50 nTotal 0.8 0.8) = Some OVERSAMPLE
       \<and> strategy res = BASELINE
       \<and> wasForcedToBaseline (strategy res)
            (dominantOriginal (calculateWeights 5 50 nTotal 0.8 0.8))
       \<and> sparsityWarning res \<noteq> None)"
proof
  assume "\<exists>str nTotal nFolds res.
         50 \<le> nTotal \<and> 1 \<le> nFolds
       \<and> analyzeDataset str
            \<lparr>features = 5, minority = 50, total = nTotal, folds = nFolds, sparsity = 0.8,
             sparsityHomogeneity = 0.8\<rparr> = Some res
       \<and> dominantOriginal (calculateWeights 5 50 nTotal 0.8 0.8) = Some OVERSAMPLE
       \<and> strategy res = BASELINE
       \<and> wasForcedToBaseline (strategy res)
            (dominantOriginal (calculateWeights 5 50 nTotal 0.8 0.8))
       \<and> sparsityWarning res \<noteq> None"
  then obtain str nTotal nFolds res where h: "50 \<le> nTotal" "1 \<le> nFolds"
    and res: "analyzeDataset str
            \<lparr>features = 5, minority = 50, total = nTotal, folds = nFolds, sparsity = 0.8,
             sparsityHomogeneity = 0.8\<rparr> = Some res"
    and base: "strategy res = BASELINE"
    by blast
  from analyzeDataset_5_50_08 [OF h, of str] res have "strategy res = OVERSAMPLE"
    by auto
  with base show False by simp
qed

end
